theory Spec2Isabelle
  imports Complex_Main "HOL-Library.Word" "HOL-Library.Signed_Division" "HOL-Library.Log_Nat"
begin

section \<open>Arkanoid: entities, geometry and collision response\<close>

text \<open>
  A shallow embedding of \<^verbatim>\<open>arkanoid.cpp\<close>. The C++ classes become records, member
  functions become functions on those records that return the updated object, and the
  objects owned by the \<^verbatim>\<open>Manager\<close> live in an explicit store addressed by pointers.

  Numbers. A value of type \<^verbatim>\<open>float\<close> is the real number it denotes, and every \<^verbatim>\<open>float\<close>
  operation of the source (\<^verbatim>\<open>+\<close>, \<^verbatim>\<open>-\<close>, \<^verbatim>\<open>*\<close>, \<^verbatim>\<open>/ 2.f\<close>, the conversion from \<^verbatim>\<open>int\<close>)
  rounds its exact result to binary32, to the nearest value with ties to the even
  significand, subnormal values included; \<^verbatim>\<open>std::abs\<close>, the unary minus and the
  comparisons are exact. Infinities and NaN are not values of the model: where a result
  reaches \<open>2^128 - 2^103\<close> in magnitude the source overflows to an infinity and the model
  does not follow it. A stored C++ \<^verbatim>\<open>int\<close> is a 32-bit word read in two's complement
  (\<open>sint\<close>); the two loop counters of \<^verbatim>\<open>Game::restart\<close>, which range over \<open>0..11\<close>,
  are mathematical integers.

  Names. The coordinate fields \<^verbatim>\<open>Shape::x\<close>, \<^verbatim>\<open>Shape::y\<close> are \<open>xpos\<close>, \<open>ypos\<close>; the
  size fields \<^verbatim>\<open>Rectangle::w\<close>, \<^verbatim>\<open>Rectangle::h\<close> are \<open>wd\<close>, \<open>ht\<close>; the components of
  \<^verbatim>\<open>Vector2f\<close> are \<open>vx\<close>, \<open>vy\<close>; the channels of \<^verbatim>\<open>SDL_Color\<close> are \<open>colR\<close> ... \<open>colA\<close>.
  A member function \<^verbatim>\<open>C::f\<close> is the constant \<open>C_f\<close>.
\<close>

type_synonym float = real
type_synonym int32 = "32 word"
type_synonym Uint8 = "8 word"

subsection \<open>Arithmetic of binary32\<close>

text \<open>
  Rounding to an integer, to the nearest one and to the even one of the two when the
  argument lies half way.
\<close>

definition round_half_even :: "real \<Rightarrow> int" where
  "round_half_even t =
     (let f = \<lfloor>t\<rfloor> in
        if t - of_int f < 1 / 2 then f
        else if 1 / 2 < t - of_int f then f + 1
        else if even f then f else f + 1)"

text \<open>
  Rounding a real number to binary32. The least positive value is \<open>2^-149\<close>, so \<open>s\<close> is
  the number in units of it. Up to \<open>2^24\<close> units the values are one unit apart (the
  subnormal values and the first binade); from there on a value has a significand of 24
  bits, so with \<open>n\<close> bits in the integer part of \<open>s\<close> the values are \<open>2^(n - 24)\<close> units
  apart.
\<close>

definition f32 :: "real \<Rightarrow> float" where
  "f32 r =
     (let s = r * 2 ^ 149;
          k = nat (bitlen \<lfloor>\<bar>s\<bar>\<rfloor> - 24)
      in of_int (round_half_even (s / 2 ^ k)) * 2 ^ k / 2 ^ 149)"

definition fadd :: "float \<Rightarrow> float \<Rightarrow> float" where
  "fadd a b = f32 (a + b)"

definition fsub :: "float \<Rightarrow> float \<Rightarrow> float" where
  "fsub a b = f32 (a - b)"

definition fmul :: "float \<Rightarrow> float \<Rightarrow> float" where
  "fmul a b = f32 (a * b)"

text \<open>The only divisor in the program is the constant \<^verbatim>\<open>2.f\<close>.\<close>

definition fdiv :: "float \<Rightarrow> float \<Rightarrow> float" where
  "fdiv a b = f32 (a / b)"

text \<open>The conversion of an \<^verbatim>\<open>int\<close> to \<^verbatim>\<open>float\<close>.\<close>

definition float_of_int :: "int \<Rightarrow> float" where
  "float_of_int n = f32 (of_int n)"

subsection \<open>Plain data\<close>

record SDL_Color =
  colR :: Uint8
  colG :: Uint8
  colB :: Uint8
  colA :: Uint8

record SDL_Rect =
  rect_x :: int
  rect_y :: int
  rect_w :: int
  rect_h :: int

record Vector2f =
  vx :: float
  vy :: float

text \<open>The global \<^verbatim>\<open>gScreenRect = { 0, 0, 800, 600 }\<close>; the program never assigns to it.\<close>

definition gScreenRect :: SDL_Rect where
  "gScreenRect = \<lparr>rect_x = 0, rect_y = 0, rect_w = 800, rect_h = 600\<rparr>"

subsection \<open>Entity and the shapes\<close>

text \<open>
  \<^verbatim>\<open>Ball\<close>, \<^verbatim>\<open>Paddle\<close> and \<^verbatim>\<open>Brick\<close> each derive from \<^verbatim>\<open>Entity\<close> and from one shape
  class. Records extend one parent, so the two base classes are put in a line:
  \<open>Entity\<close>, then \<open>Shape\<close>, then \<open>Rectangle\<close> or \<open>Circle\<close>, then the game object. The
  fill colour is \<open>None\<close> until \<^verbatim>\<open>setFillColor\<close> has run (the constructor of \<^verbatim>\<open>Brick\<close>
  leaves it unassigned).
\<close>

record Entity =
  destroyed :: bool

record Shape = Entity +
  xpos :: float
  ypos :: float
  originX :: float
  originY :: float
  fillColor :: "SDL_Color option"

definition move :: "Vector2f \<Rightarrow> 'a Shape_scheme \<Rightarrow> 'a Shape_scheme" where
  "move vel s = s\<lparr>xpos := fadd (xpos s) (vx vel), ypos := fadd (ypos s) (vy vel)\<rparr>"

definition setPosition :: "float \<Rightarrow> float \<Rightarrow> 'a Shape_scheme \<Rightarrow> 'a Shape_scheme" where
  "setPosition mX mY s = s\<lparr>xpos := mX, ypos := mY\<rparr>"

definition setFillColor :: "SDL_Color \<Rightarrow> 'a Shape_scheme \<Rightarrow> 'a Shape_scheme" where
  "setFillColor defColor s = s\<lparr>fillColor := Some defColor\<rparr>"

definition setOrigin :: "float \<Rightarrow> float \<Rightarrow> 'a Shape_scheme \<Rightarrow> 'a Shape_scheme" where
  "setOrigin oX oY s = s\<lparr>originX := oX, originY := oY\<rparr>"

record Rectangle = Shape +
  wd :: float
  ht :: float

definition setSize :: "float \<Rightarrow> float \<Rightarrow> 'a Rectangle_scheme \<Rightarrow> 'a Rectangle_scheme" where
  "setSize width height s = s\<lparr>wd := width, ht := height\<rparr>"

definition Rectangle_width :: "'a Rectangle_scheme \<Rightarrow> float" where
  "Rectangle_width s = wd s"

definition Rectangle_height :: "'a Rectangle_scheme \<Rightarrow> float" where
  "Rectangle_height s = ht s"

definition Rectangle_left :: "'a Rectangle_scheme \<Rightarrow> float" where
  "Rectangle_left s = fsub (xpos s) (fdiv (Rectangle_width s) 2)"

definition Rectangle_right :: "'a Rectangle_scheme \<Rightarrow> float" where
  "Rectangle_right s = fadd (xpos s) (fdiv (Rectangle_width s) 2)"

definition Rectangle_top :: "'a Rectangle_scheme \<Rightarrow> float" where
  "Rectangle_top s = fsub (ypos s) (fdiv (Rectangle_height s) 2)"

definition Rectangle_bottom :: "'a Rectangle_scheme \<Rightarrow> float" where
  "Rectangle_bottom s = fadd (ypos s) (fdiv (Rectangle_height s) 2)"

record Circle = Shape +
  radius :: float

definition Circle_left :: "'a Circle_scheme \<Rightarrow> float" where
  "Circle_left s = fsub (xpos s) (radius s)"

definition Circle_right :: "'a Circle_scheme \<Rightarrow> float" where
  "Circle_right s = fadd (xpos s) (radius s)"

definition Circle_top :: "'a Circle_scheme \<Rightarrow> float" where
  "Circle_top s = fsub (ypos s) (radius s)"

definition Circle_bottom :: "'a Circle_scheme \<Rightarrow> float" where
  "Circle_bottom s = fadd (ypos s) (radius s)"

definition setRadius :: "float \<Rightarrow> 'a Circle_scheme \<Rightarrow> 'a Circle_scheme" where
  "setRadius r s = s\<lparr>radius := r\<rparr>"

subsection \<open>Ball\<close>

record Ball = Circle +
  velocity :: Vector2f

definition Ball_defColor :: SDL_Color where
  "Ball_defColor = \<lparr>colR = 255, colG = 0, colB = 0, colA = 255\<rparr>"

definition Ball_defRadius :: float where
  "Ball_defRadius = 10"

definition Ball_defVelocity :: float where
  "Ball_defVelocity = 8"

text \<open>
  The constructor \<^verbatim>\<open>Ball(mX, mY)\<close>: the member initialisers give \<open>destroyed = false\<close>
  and \<open>velocity = (-defVelocity, -defVelocity)\<close>, the body sets the rest.
\<close>

definition Ball_new :: "float \<Rightarrow> float \<Rightarrow> Ball" where
  "Ball_new mX mY =
     \<lparr>destroyed = False, xpos = mX, ypos = mY,
      originX = Ball_defRadius, originY = Ball_defRadius,
      fillColor = Some Ball_defColor, radius = Ball_defRadius,
      velocity = \<lparr>vx = - Ball_defVelocity, vy = - Ball_defVelocity\<rparr>\<rparr>"

definition Ball_solveBoundCollisions :: "Ball \<Rightarrow> Ball" where
  "Ball_solveBoundCollisions b =
     (let b1 =
        (if Circle_left b < 0
         then b\<lparr>velocity := (velocity b)\<lparr>vx := Ball_defVelocity\<rparr>\<rparr>
         else if Circle_right b > float_of_int (rect_w gScreenRect)
         then b\<lparr>velocity := (velocity b)\<lparr>vx := - Ball_defVelocity\<rparr>\<rparr>
         else b)
      in
        if Circle_top b1 < 0
        then b1\<lparr>velocity := (velocity b1)\<lparr>vy := Ball_defVelocity\<rparr>\<rparr>
        else if Circle_bottom b1 > float_of_int (rect_h gScreenRect)
        then b1\<lparr>destroyed := True\<rparr>
        else b1)"

definition Ball_update :: "Ball \<Rightarrow> Ball" where
  "Ball_update b = Ball_solveBoundCollisions (move (velocity b) b)"

subsection \<open>Paddle\<close>

record Paddle = Rectangle +
  paddleVelocity :: Vector2f

definition Paddle_defColor :: SDL_Color where
  "Paddle_defColor = \<lparr>colR = 255, colG = 0, colB = 0, colA = 255\<rparr>"

definition Paddle_defWidth :: float where
  "Paddle_defWidth = 60"

definition Paddle_defHeight :: float where
  "Paddle_defHeight = 20"

definition Paddle_defVelocity :: float where
  "Paddle_defVelocity = 8"

definition Paddle_new :: "float \<Rightarrow> float \<Rightarrow> Paddle" where
  "Paddle_new mX mY =
     \<lparr>destroyed = False, xpos = mX, ypos = mY,
      originX = fdiv Paddle_defWidth 2, originY = fdiv Paddle_defHeight 2,
      fillColor = Some Paddle_defColor, wd = Paddle_defWidth, ht = Paddle_defHeight,
      paddleVelocity = \<lparr>vx = 0, vy = 0\<rparr>\<rparr>"

text \<open>
  \<^verbatim>\<open>processPlayerInput\<close> reads the global \<^verbatim>\<open>gTouchLocation\<close>, which the event loop
  writes; here it is an argument. The keyboard branch is compiled out (\<^verbatim>\<open>#if 0\<close>).
\<close>

definition Paddle_processPlayerInput :: "int \<times> int \<Rightarrow> Paddle \<Rightarrow> Paddle" where
  "Paddle_processPlayerInput gTouchLocation p =
     p\<lparr>xpos := float_of_int (fst gTouchLocation)\<rparr>"

definition Paddle_update :: "int \<times> int \<Rightarrow> Paddle \<Rightarrow> Paddle" where
  "Paddle_update gTouchLocation p =
     (let p1 = Paddle_processPlayerInput gTouchLocation p
      in move (paddleVelocity p1) p1)"

subsection \<open>Brick\<close>

record Brick = Rectangle +
  requiredHits :: int32

definition Brick_defColorHits1 :: SDL_Color where
  "Brick_defColorHits1 = \<lparr>colR = 255, colG = 255, colB = 0, colA = 80\<rparr>"

definition Brick_defColorHits2 :: SDL_Color where
  "Brick_defColorHits2 = \<lparr>colR = 255, colG = 255, colB = 0, colA = 170\<rparr>"

definition Brick_defColorHits3 :: SDL_Color where
  "Brick_defColorHits3 = \<lparr>colR = 255, colG = 255, colB = 0, colA = 255\<rparr>"

definition Brick_defWidth :: float where
  "Brick_defWidth = 60"

definition Brick_defHeight :: float where
  "Brick_defHeight = 20"

definition Brick_new :: "float \<Rightarrow> float \<Rightarrow> Brick" where
  "Brick_new mX mY =
     \<lparr>destroyed = False, xpos = mX, ypos = mY,
      originX = fdiv Brick_defWidth 2, originY = fdiv Brick_defHeight 2,
      fillColor = None, wd = Brick_defWidth, ht = Brick_defHeight,
      requiredHits = 1\<rparr>"

definition Brick_update :: "Brick \<Rightarrow> Brick" where
  "Brick_update b =
     (if requiredHits b = 1 then setFillColor Brick_defColorHits1 b
      else if requiredHits b = 2 then setFillColor Brick_defColorHits2 b
      else setFillColor Brick_defColorHits3 b)"

subsection \<open>Collisions\<close>

text \<open>
  \<^verbatim>\<open>isIntersecting\<close> is a template over two types that each offer \<^verbatim>\<open>left()\<close>,
  \<^verbatim>\<open>right()\<close>, \<^verbatim>\<open>top()\<close> and \<^verbatim>\<open>bottom()\<close>. The four member functions of a type are
  passed as a record, one for each of the two template arguments.
\<close>

record 'a Edges =
  leftOf :: "'a \<Rightarrow> float"
  rightOf :: "'a \<Rightarrow> float"
  topOf :: "'a \<Rightarrow> float"
  bottomOf :: "'a \<Rightarrow> float"

definition Rectangle_edges :: "'a Rectangle_scheme Edges" where
  "Rectangle_edges =
     \<lparr>leftOf = Rectangle_left, rightOf = Rectangle_right,
      topOf = Rectangle_top, bottomOf = Rectangle_bottom\<rparr>"

definition Circle_edges :: "'a Circle_scheme Edges" where
  "Circle_edges =
     \<lparr>leftOf = Circle_left, rightOf = Circle_right,
      topOf = Circle_top, bottomOf = Circle_bottom\<rparr>"

definition isIntersecting :: "'a Edges \<Rightarrow> 'b Edges \<Rightarrow> 'a \<Rightarrow> 'b \<Rightarrow> bool" where
  "isIntersecting T1 T2 mA mB \<longleftrightarrow>
     rightOf T1 mA \<ge> leftOf T2 mB \<and> leftOf T1 mA \<le> rightOf T2 mB \<and>
     bottomOf T1 mA \<ge> topOf T2 mB \<and> topOf T1 mA \<le> bottomOf T2 mB"

text \<open>The paddle is a \<^verbatim>\<open>const\<close> reference: only the ball is returned.\<close>

definition solvePaddleBallCollision :: "Paddle \<Rightarrow> Ball \<Rightarrow> Ball" where
  "solvePaddleBallCollision mPaddle mBall =
     (if \<not> isIntersecting Rectangle_edges Circle_edges mPaddle mBall then mBall
      else
        let b1 = mBall\<lparr>velocity := (velocity mBall)\<lparr>vy := - Ball_defVelocity\<rparr>\<rparr>
        in b1\<lparr>velocity := (velocity b1)
               \<lparr>vx := (if xpos b1 < xpos mPaddle then - Ball_defVelocity
                       else Ball_defVelocity)\<rparr>\<rparr>)"

text \<open>Both arguments are mutable references: the brick and the ball are returned.\<close>

definition solveBrickBallCollision :: "Brick \<Rightarrow> Ball \<Rightarrow> Brick \<times> Ball" where
  "solveBrickBallCollision mBrick mBall =
     (if \<not> isIntersecting Rectangle_edges Circle_edges mBrick mBall then (mBrick, mBall)
      else
        let k1 = mBrick\<lparr>requiredHits := requiredHits mBrick - 1\<rparr>;
            k2 = (if sint (requiredHits k1) \<le> 0 then k1\<lparr>destroyed := True\<rparr> else k1);
            overlapLeft = fsub (Circle_right mBall) (Rectangle_left k2);
            overlapRight = fsub (Rectangle_right k2) (Circle_left mBall);
            overlapTop = fsub (Circle_bottom mBall) (Rectangle_top k2);
            overlapBottom = fsub (Rectangle_bottom k2) (Circle_top mBall);
            ballFromLeft = (\<bar>overlapLeft\<bar> < \<bar>overlapRight\<bar>);
            ballFromTop = (\<bar>overlapTop\<bar> < \<bar>overlapBottom\<bar>);
            minOverlapX = (if ballFromLeft then overlapLeft else overlapRight);
            minOverlapY = (if ballFromTop then overlapTop else overlapBottom)
        in
          if \<bar>minOverlapX\<bar> < \<bar>minOverlapY\<bar>
          then (k2, mBall\<lparr>velocity := (velocity mBall)
                  \<lparr>vx := (if ballFromLeft then - Ball_defVelocity else Ball_defVelocity)\<rparr>\<rparr>)
          else (k2, mBall\<lparr>velocity := (velocity mBall)
                  \<lparr>vy := (if ballFromTop then - Ball_defVelocity else Ball_defVelocity)\<rparr>\<rparr>))"

text \<open>
  The four local variables \<^verbatim>\<open>overlapLeft\<close>, \<^verbatim>\<open>overlapRight\<close>, \<^verbatim>\<open>overlapTop\<close> and
  \<^verbatim>\<open>overlapBottom\<close> of \<^verbatim>\<open>solveBrickBallCollision\<close>, as functions of the brick and the
  ball the function is called with (the hit changes neither the position nor the size of
  the brick).
\<close>

definition overlapLeft :: "Brick \<Rightarrow> Ball \<Rightarrow> float" where
  "overlapLeft mBrick mBall = fsub (Circle_right mBall) (Rectangle_left mBrick)"

definition overlapRight :: "Brick \<Rightarrow> Ball \<Rightarrow> float" where
  "overlapRight mBrick mBall = fsub (Rectangle_right mBrick) (Circle_left mBall)"

definition overlapTop :: "Brick \<Rightarrow> Ball \<Rightarrow> float" where
  "overlapTop mBrick mBall = fsub (Circle_bottom mBall) (Rectangle_top mBrick)"

definition overlapBottom :: "Brick \<Rightarrow> Ball \<Rightarrow> float" where
  "overlapBottom mBrick mBall = fsub (Rectangle_bottom mBrick) (Circle_top mBall)"

subsection \<open>Manager\<close>

text \<open>
  The manager owns its entities through \<^verbatim>\<open>unique_ptr\<close> and keeps raw pointers to the
  same objects in \<^verbatim>\<open>groupedEntities\<close>, one vector for each type. The objects live in a
  store: a pointer is an index into \<open>heap\<close>, a cell is \<open>None\<close> once its object has been
  deleted, and a new object takes a cell that was never used before. The key
  \<^verbatim>\<open>typeid(T).hash_code()\<close> of a group is the type itself (distinct types are taken to have
  distinct hash codes), and the \<^verbatim>\<open>std::map\<close> is an association list with one entry for
  each key.
\<close>

type_synonym addr = nat

datatype EntityObj = BallObj Ball | PaddleObj Paddle | BrickObj Brick

datatype TypeId = BallT | PaddleT | BrickT

fun typeid :: "EntityObj \<Rightarrow> TypeId" where
  "typeid (BallObj b) = BallT"
| "typeid (PaddleObj p) = PaddleT"
| "typeid (BrickObj k) = BrickT"

text \<open>The flag \<^verbatim>\<open>Entity::destroyed\<close> read through an \<^verbatim>\<open>Entity*\<close>.\<close>

fun Entity_destroyed :: "EntityObj \<Rightarrow> bool" where
  "Entity_destroyed (BallObj b) = destroyed b"
| "Entity_destroyed (PaddleObj p) = destroyed p"
| "Entity_destroyed (BrickObj k) = destroyed k"

record Manager =
  heap :: "EntityObj option list"
  entities :: "addr list"
  groupedEntities :: "(TypeId \<times> addr list) list"

definition deref :: "EntityObj option list \<Rightarrow> addr \<Rightarrow> EntityObj option" where
  "deref hp ptr = (if ptr < length hp then hp ! ptr else None)"

definition Manager_new :: Manager where
  "Manager_new = \<lparr>heap = [], entities = [], groupedEntities = []\<rparr>"

text \<open>\<^verbatim>\<open>groupedEntities[key].emplace_back(ptr)\<close>: a missing key gets an empty vector first.\<close>

fun group_emplace_back ::
  "TypeId \<Rightarrow> addr \<Rightarrow> (TypeId \<times> addr list) list \<Rightarrow> (TypeId \<times> addr list) list" where
  "group_emplace_back key ptr [] = [(key, [ptr])]"
| "group_emplace_back key ptr ((k, v) # gs) =
     (if k = key then (k, v @ [ptr]) # gs else (k, v) # group_emplace_back key ptr gs)"

text \<open>
  \<^verbatim>\<open>create<T>(args...)\<close> builds the object from the arguments; here the caller passes
  the object built by the constructor. The result is the reference and the manager.
\<close>

definition Manager_create :: "EntityObj \<Rightarrow> Manager \<Rightarrow> addr \<times> Manager" where
  "Manager_create obj m =
     (let ptr = length (heap m)
      in (ptr,
          m\<lparr>heap := heap m @ [Some obj],
            groupedEntities := group_emplace_back (typeid obj) ptr (groupedEntities m),
            entities := entities m @ [ptr]\<rparr>))"

text \<open>
  \<^verbatim>\<open>erase(remove_if(begin, end, pred), end)\<close> with the predicate \<^verbatim>\<open>p->destroyed\<close>. Reading
  the flag through a pointer whose object is gone is undefined behaviour: the result is
  \<open>None\<close>.
\<close>

fun erase_destroyed :: "EntityObj option list \<Rightarrow> addr list \<Rightarrow> addr list option" where
  "erase_destroyed hp [] = Some []"
| "erase_destroyed hp (ptr # ps) =
     (case deref hp ptr of
        None \<Rightarrow> None
      | Some e \<Rightarrow>
          (case erase_destroyed hp ps of
             None \<Rightarrow> None
           | Some rest \<Rightarrow> Some (if Entity_destroyed e then rest else ptr # rest)))"

fun refresh_groups ::
  "EntityObj option list \<Rightarrow> (TypeId \<times> addr list) list \<Rightarrow> (TypeId \<times> addr list) list option" where
  "refresh_groups hp [] = Some []"
| "refresh_groups hp ((k, v) # gs) =
     (case erase_destroyed hp v of
        None \<Rightarrow> None
      | Some v' \<Rightarrow>
          (case refresh_groups hp gs of
             None \<Rightarrow> None
           | Some gs' \<Rightarrow> Some ((k, v') # gs')))"

text \<open>The owning pointers that \<^verbatim>\<open>entities.erase\<close> drops delete their objects.\<close>

fun delete_destroyed :: "addr list \<Rightarrow> EntityObj option list \<Rightarrow> EntityObj option list" where
  "delete_destroyed [] hp = hp"
| "delete_destroyed (ptr # ps) hp =
     (case deref hp ptr of
        Some e \<Rightarrow> delete_destroyed ps (if Entity_destroyed e then hp[ptr := None] else hp)
      | None \<Rightarrow> delete_destroyed ps hp)"

definition Manager_refresh :: "Manager \<Rightarrow> Manager option" where
  "Manager_refresh m =
     (case refresh_groups (heap m) (groupedEntities m) of
        None \<Rightarrow> None
      | Some gs' \<Rightarrow>
          (case erase_destroyed (heap m) (entities m) of
             None \<Rightarrow> None
           | Some es' \<Rightarrow>
               Some (m\<lparr>groupedEntities := gs', entities := es',
                       heap := delete_destroyed (entities m) (heap m)\<rparr>)))"

text \<open>\<^verbatim>\<open>clear\<close> empties both containers; every object is deleted with its owner.\<close>

definition Manager_clear :: "Manager \<Rightarrow> Manager" where
  "Manager_clear m = m\<lparr>groupedEntities := [], entities := [], heap := []\<rparr>"

text \<open>\<^verbatim>\<open>getAll<T>()\<close> is \<^verbatim>\<open>groupedEntities[key]\<close>, which adds a missing key.\<close>

definition Manager_getAll :: "TypeId \<Rightarrow> Manager \<Rightarrow> addr list \<times> Manager" where
  "Manager_getAll key m =
     (case map_of (groupedEntities m) key of
        Some v \<Rightarrow> (v, m)
      | None \<Rightarrow> ([], m\<lparr>groupedEntities := groupedEntities m @ [(key, [])]\<rparr>))"

text \<open>
  The pointers of a manager are valid when each of them, in the master list and in every
  group, points to a live object.
\<close>

definition Manager_valid :: "Manager \<Rightarrow> bool" where
  "Manager_valid m \<longleftrightarrow>
     list_all (\<lambda>ptr. deref (heap m) ptr \<noteq> None) (entities m) \<and>
     list_all (\<lambda>(k, v). list_all (\<lambda>ptr. deref (heap m) ptr \<noteq> None) v) (groupedEntities m)"

text \<open>
  A pointer is alive when it points to an object whose flag \<open>destroyed\<close> is not set; a
  list of pointers holds no destroyed entity when each of them is alive.
\<close>

definition alive :: "EntityObj option list \<Rightarrow> addr \<Rightarrow> bool" where
  "alive hp ptr = (case deref hp ptr of Some e \<Rightarrow> \<not> Entity_destroyed e | None \<Rightarrow> False)"

definition none_destroyed :: "EntityObj option list \<Rightarrow> addr list \<Rightarrow> bool" where
  "none_destroyed hp ps = list_all (alive hp) ps"

subsection \<open>Game\<close>

datatype State = Paused | GameOver | InProgress | Victory

text \<open>The window, renderer, fonts and textures of \<^verbatim>\<open>Game\<close> are left out.\<close>

record Game =
  manager :: Manager
  state :: State
  pausePressedLastFrame :: bool
  remainingLives :: int32

definition Game_new :: Game where
  "Game_new =
     \<lparr>manager = Manager_new, state = GameOver, pausePressedLastFrame = False,
      remainingLives = 0\<rparr>"

definition brkCountX :: int where
  "brkCountX = 11"

definition brkCountY :: int where
  "brkCountY = 4"

definition brkStartColumn :: int where
  "brkStartColumn = 1"

definition brkStartRow :: int where
  "brkStartRow = 2"

definition brkSpacing :: float where
  "brkSpacing = 3"

definition brkOffsetX :: float where
  "brkOffsetX = 22"

text \<open>The assignment \<^verbatim>\<open>brick.requiredHits = v\<close> through the reference \<^verbatim>\<open>create\<close> returned.\<close>

definition assign_requiredHits :: "addr \<Rightarrow> int32 \<Rightarrow> Manager \<Rightarrow> Manager" where
  "assign_requiredHits brick v m =
     (case deref (heap m) brick of
        Some (BrickObj k) \<Rightarrow> m\<lparr>heap := (heap m)[brick := Some (BrickObj (k\<lparr>requiredHits := v\<rparr>))]\<rparr>
      | _ \<Rightarrow> m)"

text \<open>The inner loop of \<^verbatim>\<open>restart\<close>, over \<open>iY\<close>; \<^verbatim>\<open>%\<close> truncates (\<open>smod\<close>).\<close>

function restart_loopY :: "int \<Rightarrow> int \<Rightarrow> Manager \<Rightarrow> Manager" where
  "restart_loopY iX iY m =
     (if iY < brkCountY then
        let x = fmul (float_of_int (iX + brkStartColumn)) (fadd Brick_defWidth brkSpacing);
            y = fmul (float_of_int (iY + brkStartRow)) (fadd Brick_defHeight brkSpacing);
            (brick, m1) = Manager_create (BrickObj (Brick_new (fadd brkOffsetX x) y)) m;
            m2 = assign_requiredHits brick (word_of_int (1 + ((iX * iY) smod 3))) m1
        in restart_loopY iX (iY + 1) m2
      else m)"
  by pat_completeness auto
termination
  by (relation "measure (\<lambda>(iX, iY, m). nat (brkCountY - iY))") auto

text \<open>The outer loop, over \<open>iX\<close>.\<close>

function restart_loopX :: "int \<Rightarrow> Manager \<Rightarrow> Manager" where
  "restart_loopX iX m =
     (if iX < brkCountX then restart_loopX (iX + 1) (restart_loopY iX 0 m) else m)"
  by pat_completeness auto
termination
  by (relation "measure (\<lambda>(iX, m). nat (brkCountX - iX))") auto

declare restart_loopY.simps [simp del]
declare restart_loopX.simps [simp del]

definition Game_restart :: "Game \<Rightarrow> Game" where
  "Game_restart g =
     (let g1 = g\<lparr>remainingLives := 3\<rparr>;
          g2 = g1\<lparr>state := Paused\<rparr>;
          g3 = g2\<lparr>manager := Manager_clear (manager g2)\<rparr>;
          g4 = g3\<lparr>manager := restart_loopX 0 (manager g3)\<rparr>;
          g5 = g4\<lparr>manager := snd (Manager_create
                 (BallObj (Ball_new (fdiv (float_of_int (rect_w gScreenRect)) 2)
                                    (fdiv (float_of_int (rect_h gScreenRect)) 2)))
                 (manager g4))\<rparr>
      in g5\<lparr>manager := snd (Manager_create
                 (PaddleObj (Paddle_new (fdiv (float_of_int (rect_w gScreenRect)) 2)
                                        (fsub (float_of_int (rect_h gScreenRect)) 50)))
                 (manager g5))\<rparr>)"

text \<open>
  The brick that \<^verbatim>\<open>restart\<close> builds in column \<open>iX\<close> and row \<open>iY\<close> of the grid, and the
  manager that holds the bricks \<open>ks\<close> and nothing else, created in this order.
\<close>

definition grid_brick :: "int \<Rightarrow> int \<Rightarrow> Brick" where
  "grid_brick iX iY =
     (Brick_new
        (fadd brkOffsetX
           (fmul (float_of_int (iX + brkStartColumn)) (fadd Brick_defWidth brkSpacing)))
        (fmul (float_of_int (iY + brkStartRow)) (fadd Brick_defHeight brkSpacing)))
       \<lparr>requiredHits := word_of_int (1 + ((iX * iY) smod 3))\<rparr>"

definition brick_store :: "Brick list \<Rightarrow> Manager" where
  "brick_store ks =
     \<lparr>heap = map (\<lambda>k. Some (BrickObj k)) ks,
      entities = [0..<length ks],
      groupedEntities = (if ks = [] then [] else [(BrickT, [0..<length ks])])\<rparr>"

text \<open>The bricks of the whole grid, column after column, each column from the top row down.\<close>

definition restart_bricks :: "Brick list" where
  "restart_bricks =
     concat (map (\<lambda>i. map (grid_brick i) [0..brkCountY - 1]) [0..brkCountX - 1])"

section \<open>Properties\<close>

subsection \<open>Edges and the collision functions\<close>

lemma round_half_even_of_int [simp]: "round_half_even (of_int z) = z"
  by (simp add: round_half_even_def)

text \<open>A number with a significand of at most 24 bits and an exponent in range is not changed.\<close>

lemma f32_exact:
  assumes "\<bar>m\<bar> < 2 ^ 24" and "j \<le> 149"
  shows "f32 (of_int m / 2 ^ j) = of_int m / 2 ^ j"
proof -
  from assms(2) obtain d where d: "j + d = 149"
    by (metis le_add_diff_inverse)
  have p: "(2 :: real) ^ 149 = 2 ^ j * 2 ^ d"
    unfolding d [symmetric] by (rule power_add)
  define z where "z = \<bar>m\<bar> * 2 ^ d"
  define k where "k = nat (bitlen z - 24)"
  have s: "of_int m / 2 ^ j * 2 ^ 149 = (of_int (m * 2 ^ d) :: real)"
    by (simp only: p) simp
  have a: "\<bar>of_int (m * 2 ^ d) :: real\<bar> = of_int z"
    by (simp add: z_def abs_mult)
  have "z < 2 ^ 24 * 2 ^ d"
    unfolding z_def using assms(1) by simp
  then have "z < 2 ^ nat (int (24 + d))"
    by (simp only: nat_int power_add)
  then have "bitlen z \<le> int (24 + d)"
    by (subst bitlen_le_iff_power) simp
  then have k: "k \<le> d"
    by (simp add: k_def)
  then obtain e where e: "d = e + k"
    by (metis le_add_diff_inverse2)
  have q: "(2 :: real) ^ d = 2 ^ e * 2 ^ k" "(2 :: int) ^ d = 2 ^ e * 2 ^ k"
    unfolding e by (rule power_add)+
  have "(of_int (m * 2 ^ d) :: real) / 2 ^ k = of_int (m * 2 ^ e)"
    by (simp only: q) simp
  then have "f32 (of_int m / 2 ^ j) = of_int (m * 2 ^ e) * 2 ^ k / 2 ^ 149"
    by (simp only: f32_def Let_def s a floor_of_int k_def [symmetric] round_half_even_of_int)
  also have "\<dots> = of_int m / 2 ^ j"
    by (simp only: p q) simp
  finally show ?thesis .
qed

lemma f32_of_int: "\<bar>m\<bar> < 2 ^ 24 \<Longrightarrow> f32 (of_int m) = of_int m"
  using f32_exact [of m 0] by simp

lemma f32_numeral [simp]:
  "(numeral n :: int) < 2 ^ 24 \<Longrightarrow> f32 (numeral n) = numeral n"
  "(numeral n :: int) < 2 ^ 24 \<Longrightarrow> f32 (- numeral n) = - numeral n"
  using f32_of_int [of "numeral n"] f32_of_int [of "- numeral n"] by simp_all

lemma f32_0 [simp]: "f32 0 = 0"
  using f32_of_int [of 0] by simp

lemma f32_1 [simp]: "f32 1 = 1"
  using f32_of_int [of 1] by simp

text \<open>Two rules with which the simplifier computes \<open>bitlen\<close>, and so \<open>f32\<close>, at a numeral.\<close>

lemma bitlen_numeral: "bitlen (numeral n) = bitlen (numeral n div 2) + 1"
  by (subst compute_bitlen) simp

lemma bitlen_one: "bitlen 1 = 1"
  by (subst compute_bitlen) simp

lemmas f32_eval = f32_def round_half_even_def Let_def bitlen_numeral bitlen_one

lemmas float_defs = fadd_def fsub_def fmul_def fdiv_def float_of_int_def

lemma screen_float:
  "float_of_int (rect_w gScreenRect) = of_int (rect_w gScreenRect)"
  "float_of_int (rect_h gScreenRect) = of_int (rect_h gScreenRect)"
  by (simp_all add: float_of_int_def gScreenRect_def)

lemma screen_centre:
  "fdiv (float_of_int (rect_w gScreenRect)) 2 = of_int (rect_w gScreenRect) / 2"
  "fdiv (float_of_int (rect_h gScreenRect)) 2 = of_int (rect_h gScreenRect) / 2"
  by (simp_all add: float_defs gScreenRect_def)

lemmas edge_defs =
  Rectangle_left_def Rectangle_right_def Rectangle_top_def Rectangle_bottom_def
  Rectangle_width_def Rectangle_height_def
  Circle_left_def Circle_right_def Circle_top_def Circle_bottom_def

lemma Circle_edges_velocity [simp]:
  "Circle_left (b\<lparr>velocity := v\<rparr>) = Circle_left b"
  "Circle_right (b\<lparr>velocity := v\<rparr>) = Circle_right b"
  "Circle_top (b\<lparr>velocity := v\<rparr>) = Circle_top b"
  "Circle_bottom (b\<lparr>velocity := v\<rparr>) = Circle_bottom b"
  by (simp_all add: edge_defs)

lemma bound_stage2:
  "destroyed (if Circle_top b1 < 0 then b1\<lparr>velocity := v\<rparr>
              else if Circle_bottom b1 > H then b1\<lparr>destroyed := True\<rparr> else b1) \<longleftrightarrow>
   destroyed b1 \<or> (\<not> Circle_top b1 < 0 \<and> Circle_bottom b1 > H)"
  by simp

lemma bound_stage1:
  "Circle_top (if c then b\<lparr>velocity := v\<rparr> else if d then b\<lparr>velocity := u\<rparr> else b)
     = Circle_top b"
  "Circle_bottom (if c then b\<lparr>velocity := v\<rparr> else if d then b\<lparr>velocity := u\<rparr> else b)
     = Circle_bottom b"
  "destroyed (if c then b\<lparr>velocity := v\<rparr> else if d then b\<lparr>velocity := u\<rparr> else b)
     = destroyed b"
  by simp_all

lemma solveBoundCollisions_destroyed:
  "destroyed (Ball_solveBoundCollisions b) \<longleftrightarrow>
     destroyed b \<or> (\<not> Circle_top b < 0 \<and> Circle_bottom b > float_of_int (rect_h gScreenRect))"
proof -
  define b1 where "b1 =
        (if Circle_left b < 0
         then b\<lparr>velocity := (velocity b)\<lparr>vx := Ball_defVelocity\<rparr>\<rparr>
         else if Circle_right b > float_of_int (rect_w gScreenRect)
         then b\<lparr>velocity := (velocity b)\<lparr>vx := - Ball_defVelocity\<rparr>\<rparr>
         else b)"
  have "Ball_solveBoundCollisions b =
        (if Circle_top b1 < 0
        then b1\<lparr>velocity := (velocity b1)\<lparr>vy := Ball_defVelocity\<rparr>\<rparr>
        else if Circle_bottom b1 > float_of_int (rect_h gScreenRect)
        then b1\<lparr>destroyed := True\<rparr>
        else b1)"
    by (simp only: Ball_solveBoundCollisions_def Let_def b1_def)
  then have "destroyed (Ball_solveBoundCollisions b) \<longleftrightarrow>
     destroyed b1 \<or> (\<not> Circle_top b1 < 0 \<and> Circle_bottom b1 > float_of_int (rect_h gScreenRect))"
    by (simp only: bound_stage2)
  moreover have "Circle_top b1 = Circle_top b" "Circle_bottom b1 = Circle_bottom b"
    "destroyed b1 = destroyed b"
    by (simp_all only: b1_def bound_stage1)
  ultimately show ?thesis by simp
qed

lemmas overlap_defs = overlapLeft_def overlapRight_def overlapTop_def overlapBottom_def

lemma Rectangle_edges_hit:
  "Rectangle_left (k\<lparr>destroyed := d, requiredHits := n\<rparr>) = Rectangle_left k"
  "Rectangle_right (k\<lparr>destroyed := d, requiredHits := n\<rparr>) = Rectangle_right k"
  "Rectangle_top (k\<lparr>destroyed := d, requiredHits := n\<rparr>) = Rectangle_top k"
  "Rectangle_bottom (k\<lparr>destroyed := d, requiredHits := n\<rparr>) = Rectangle_bottom k"
  by (simp_all add: edge_defs)

lemma abs_selected_overlap:
  "abs (if abs u < abs v then u else v) = min (abs u) (abs (v :: real))"
  by (simp add: min_def)

lemma brick_after_hit:
  "(if sint (requiredHits (k\<lparr>requiredHits := n\<rparr>)) \<le> 0
    then k\<lparr>requiredHits := n\<rparr>\<lparr>destroyed := True\<rparr> else k\<lparr>requiredHits := n\<rparr>) =
   k\<lparr>destroyed := destroyed k \<or> sint n \<le> 0, requiredHits := n\<rparr>"
  by simp

lemma solveBrickBallCollision_miss:
  "\<not> isIntersecting Rectangle_edges Circle_edges mBrick mBall \<Longrightarrow>
   solveBrickBallCollision mBrick mBall = (mBrick, mBall)"
  by (simp only: solveBrickBallCollision_def simp_thms if_True)

lemma solveBrickBallCollision_hit:
  assumes "isIntersecting Rectangle_edges Circle_edges mBrick mBall"
  shows "solveBrickBallCollision mBrick mBall =
    (mBrick\<lparr>destroyed := destroyed mBrick \<or> sint (requiredHits mBrick - 1) \<le> 0,
            requiredHits := requiredHits mBrick - 1\<rparr>,
     if min (abs (overlapLeft mBrick mBall)) (abs (overlapRight mBrick mBall))
        < min (abs (overlapTop mBrick mBall)) (abs (overlapBottom mBrick mBall))
     then mBall\<lparr>velocity := (velocity mBall)\<lparr>vx :=
            (if abs (overlapLeft mBrick mBall) < abs (overlapRight mBrick mBall)
             then - Ball_defVelocity else Ball_defVelocity)\<rparr>\<rparr>
     else mBall\<lparr>velocity := (velocity mBall)\<lparr>vy :=
            (if abs (overlapTop mBrick mBall) < abs (overlapBottom mBrick mBall)
             then - Ball_defVelocity else Ball_defVelocity)\<rparr>\<rparr>)"
proof -
  have "solveBrickBallCollision mBrick mBall =
    (let k1 = mBrick\<lparr>requiredHits := requiredHits mBrick - 1\<rparr>;
            k2 = (if sint (requiredHits k1) \<le> 0 then k1\<lparr>destroyed := True\<rparr> else k1);
            overlapLeft = fsub (Circle_right mBall) (Rectangle_left k2);
            overlapRight = fsub (Rectangle_right k2) (Circle_left mBall);
            overlapTop = fsub (Circle_bottom mBall) (Rectangle_top k2);
            overlapBottom = fsub (Rectangle_bottom k2) (Circle_top mBall);
            ballFromLeft = (\<bar>overlapLeft\<bar> < \<bar>overlapRight\<bar>);
            ballFromTop = (\<bar>overlapTop\<bar> < \<bar>overlapBottom\<bar>);
            minOverlapX = (if ballFromLeft then overlapLeft else overlapRight);
            minOverlapY = (if ballFromTop then overlapTop else overlapBottom)
        in
          if \<bar>minOverlapX\<bar> < \<bar>minOverlapY\<bar>
          then (k2, mBall\<lparr>velocity := (velocity mBall)
                  \<lparr>vx := (if ballFromLeft then - Ball_defVelocity else Ball_defVelocity)\<rparr>\<rparr>)
          else (k2, mBall\<lparr>velocity := (velocity mBall)
                  \<lparr>vy := (if ballFromTop then - Ball_defVelocity else Ball_defVelocity)\<rparr>\<rparr>))"
    using assms by (simp only: solveBrickBallCollision_def simp_thms if_False)
  then show ?thesis
    by (simp only: Let_def brick_after_hit Rectangle_edges_hit abs_selected_overlap
          overlap_defs if_distrib [of "Pair _"])
qed

lemma sint_decrement:
  fixes n :: int32
  assumes "sint n \<noteq> - (2 ^ 31)"
  shows "sint (n - 1) = sint n - 1"
proof -
  have "- (2 ^ 31) \<le> sint n" "sint n < 2 ^ 31"
    using sint_ge [of n] sint_lt [of n] by simp_all
  with assms have "- (2 ^ 31) \<le> sint n - 1" "sint n - 1 < 2 ^ 31"
    by simp_all
  then have "signed_take_bit 31 (sint n - 1) = sint n - 1"
    by (simp add: signed_take_bit_int_eq_self)
  then show ?thesis
    by (simp add: sint_word_ariths)
qed

lemma Brick_new_edges:
  "Rectangle_left (Brick_new mX mY) = fsub mX 30"
  "Rectangle_right (Brick_new mX mY) = fadd mX 30"
  "Rectangle_top (Brick_new mX mY) = fsub mY 10"
  "Rectangle_bottom (Brick_new mX mY) = fadd mY 10"
  by (simp_all add: edge_defs Brick_new_def Brick_defWidth_def Brick_defHeight_def fdiv_def)

lemma Paddle_new_edges:
  "Rectangle_left (Paddle_new mX mY) = fsub mX 30"
  "Rectangle_right (Paddle_new mX mY) = fadd mX 30"
  "Rectangle_top (Paddle_new mX mY) = fsub mY 10"
  "Rectangle_bottom (Paddle_new mX mY) = fadd mY 10"
  by (simp_all add: edge_defs Paddle_new_def Paddle_defWidth_def Paddle_defHeight_def fdiv_def)

lemma Ball_new_edges:
  "Circle_left (Ball_new mX mY) = fsub mX 10"
  "Circle_right (Ball_new mX mY) = fadd mX 10"
  "Circle_top (Ball_new mX mY) = fsub mY 10"
  "Circle_bottom (Ball_new mX mY) = fadd mY 10"
  by (simp_all add: edge_defs Ball_new_def Ball_defRadius_def)

lemma isIntersecting_Rectangle_Circle:
  "isIntersecting Rectangle_edges Circle_edges k c \<longleftrightarrow>
     Rectangle_right k \<ge> Circle_left c \<and> Rectangle_left k \<le> Circle_right c \<and>
     Rectangle_bottom k \<ge> Circle_top c \<and> Rectangle_top k \<le> Circle_bottom c"
  by (simp add: isIntersecting_def Rectangle_edges_def Circle_edges_def)

lemma isIntersecting_after_hit:
  assumes "isIntersecting Rectangle_edges Circle_edges mBrick mBall"
  shows "isIntersecting Rectangle_edges Circle_edges
           (fst (solveBrickBallCollision mBrick mBall)) (snd (solveBrickBallCollision mBrick mBall))"
proof -
  have "Circle_left (if c then mBall\<lparr>velocity := u\<rparr> else mBall\<lparr>velocity := v\<rparr>) = Circle_left mBall"
       "Circle_right (if c then mBall\<lparr>velocity := u\<rparr> else mBall\<lparr>velocity := v\<rparr>) = Circle_right mBall"
       "Circle_top (if c then mBall\<lparr>velocity := u\<rparr> else mBall\<lparr>velocity := v\<rparr>) = Circle_top mBall"
       "Circle_bottom (if c then mBall\<lparr>velocity := u\<rparr> else mBall\<lparr>velocity := v\<rparr>) = Circle_bottom mBall"
    for c u v
    by simp_all
  then show ?thesis
    using assms
    by (simp only: solveBrickBallCollision_hit [OF assms] isIntersecting_Rectangle_Circle
          fst_conv snd_conv Rectangle_edges_hit)
qed

subsection \<open>Ball against the bottom edge\<close>

text \<open>
  C1 (as amended). The bound-collision check compares strictly: it marks the ball destroyed
  exactly when the ball is not above the top edge (\<open>top() >= 0\<close>) and its \<open>bottom()\<close> is
  greater than the height of the world. So a ball whose \<open>bottom()\<close> equals the height of
  the world, 600, is not marked destroyed by the check, and neither is a ball whose
  \<open>bottom()\<close> is one less.
\<close>

theorem solveBoundCollisions_bottom_strict:
  "(destroyed (Ball_solveBoundCollisions b) \<longleftrightarrow>
      destroyed b \<or> (0 \<le> Circle_top b \<and> Circle_bottom b > of_int (rect_h gScreenRect))) \<and>
   (Circle_bottom b = of_int (rect_h gScreenRect) \<longrightarrow>
      destroyed (Ball_solveBoundCollisions b) = destroyed b) \<and>
   (Circle_bottom b = of_int (rect_h gScreenRect) - 1 \<longrightarrow>
      destroyed (Ball_solveBoundCollisions b) = destroyed b)"
  by (auto simp add: solveBoundCollisions_destroyed screen_float)

theorem solveBoundCollisions_bottom_strict_witness:
  "Circle_bottom (Ball_new 400 590) = of_int (rect_h gScreenRect) \<and>
   \<not> destroyed (Ball_solveBoundCollisions (Ball_new 400 590)) \<and>
   Circle_bottom (Ball_new 400 589) = of_int (rect_h gScreenRect) - 1 \<and>
   \<not> destroyed (Ball_solveBoundCollisions (Ball_new 400 589)) \<and>
   0 \<le> Circle_top (Ball_new 400 591) \<and>
   Circle_bottom (Ball_new 400 591) > of_int (rect_h gScreenRect) \<and>
   destroyed (Ball_solveBoundCollisions (Ball_new 400 591))"
proof -
  have d: "\<not> destroyed (Ball_new mX mY)" for mX mY
    by (simp add: Ball_new_def)
  show ?thesis
    using solveBoundCollisions_bottom_strict [of "Ball_new 400 590"]
      solveBoundCollisions_bottom_strict [of "Ball_new 400 589"]
      solveBoundCollisions_bottom_strict [of "Ball_new 400 591"]
    by (simp add: Ball_new_edges gScreenRect_def d float_defs)
qed

text \<open>
  C1 as stated fails: a new ball at \<open>(400, 582)\<close> that moves down by 8 is left by
  \<^verbatim>\<open>update\<close> with \<open>bottom() = 600\<close>, the height of the world, and is not destroyed.
\<close>

theorem bottom_boundary_counterexample:
  "Circle_bottom (move (velocity ((Ball_new 400 582)\<lparr>velocity := \<lparr>vx = - 8, vy = 8\<rparr>\<rparr>))
       ((Ball_new 400 582)\<lparr>velocity := \<lparr>vx = - 8, vy = 8\<rparr>\<rparr>)) = of_int (rect_h gScreenRect) \<and>
   \<not> destroyed (Ball_solveBoundCollisions
       (move (velocity ((Ball_new 400 582)\<lparr>velocity := \<lparr>vx = - 8, vy = 8\<rparr>\<rparr>))
          ((Ball_new 400 582)\<lparr>velocity := \<lparr>vx = - 8, vy = 8\<rparr>\<rparr>))) \<and>
   \<not> destroyed (Ball_update ((Ball_new 400 582)\<lparr>velocity := \<lparr>vx = - 8, vy = 8\<rparr>\<rparr>))"
  by (simp add: Ball_update_def solveBoundCollisions_destroyed move_def Ball_new_def edge_defs
        Ball_defRadius_def gScreenRect_def float_defs)

subsection \<open>Ball against a brick: the bounce\<close>

text \<open>
  C2. For an intersecting brick and ball, with the four overlaps \<open>overlapLeft\<close>
  (ball.right - brick.left), \<open>overlapRight\<close> (brick.right - ball.left), \<open>overlapTop\<close>
  (ball.bottom - brick.top) and \<open>overlapBottom\<close> (brick.bottom - ball.top): the overlap
  selected on an axis has the smaller absolute value of the two sides. When the
  horizontal one is smaller in absolute value than the vertical one, the ball is the old
  ball with only \<open>velocity.x\<close> set, to \<open>-defVelocity\<close> if the left side was the smaller and
  to \<open>+defVelocity\<close> otherwise; when the vertical one is smaller, only \<open>velocity.y\<close> is set,
  to \<open>-defVelocity\<close> if the top side was the smaller and to \<open>+defVelocity\<close> otherwise.
\<close>

theorem solveBrickBallCollision_smaller_axis:
  "isIntersecting Rectangle_edges Circle_edges mBrick mBall \<Longrightarrow>
   (min (abs (overlapLeft mBrick mBall)) (abs (overlapRight mBrick mBall))
      < min (abs (overlapTop mBrick mBall)) (abs (overlapBottom mBrick mBall)) \<longrightarrow>
    snd (solveBrickBallCollision mBrick mBall) =
      mBall\<lparr>velocity := (velocity mBall)\<lparr>vx :=
        (if abs (overlapLeft mBrick mBall) < abs (overlapRight mBrick mBall)
         then - Ball_defVelocity else Ball_defVelocity)\<rparr>\<rparr>) \<and>
   (min (abs (overlapTop mBrick mBall)) (abs (overlapBottom mBrick mBall))
      < min (abs (overlapLeft mBrick mBall)) (abs (overlapRight mBrick mBall)) \<longrightarrow>
    snd (solveBrickBallCollision mBrick mBall) =
      mBall\<lparr>velocity := (velocity mBall)\<lparr>vy :=
        (if abs (overlapTop mBrick mBall) < abs (overlapBottom mBrick mBall)
         then - Ball_defVelocity else Ball_defVelocity)\<rparr>\<rparr>)"
  by (simp only: solveBrickBallCollision_hit snd_conv) simp

theorem solveBrickBallCollision_smaller_axis_witness:
  "isIntersecting Rectangle_edges Circle_edges (Brick_new 100 100)
     ((Ball_new 65 100)\<lparr>velocity := \<lparr>vx = 8, vy = - 8\<rparr>\<rparr>) \<and>
   snd (solveBrickBallCollision (Brick_new 100 100)
     ((Ball_new 65 100)\<lparr>velocity := \<lparr>vx = 8, vy = - 8\<rparr>\<rparr>)) =
     (Ball_new 65 100)\<lparr>velocity := \<lparr>vx = - 8, vy = - 8\<rparr>\<rparr> \<and>
   isIntersecting Rectangle_edges Circle_edges (Brick_new 100 100)
     ((Ball_new 100 85)\<lparr>velocity := \<lparr>vx = 8, vy = 8\<rparr>\<rparr>) \<and>
   snd (solveBrickBallCollision (Brick_new 100 100)
     ((Ball_new 100 85)\<lparr>velocity := \<lparr>vx = 8, vy = 8\<rparr>\<rparr>)) =
     (Ball_new 100 85)\<lparr>velocity := \<lparr>vx = 8, vy = - 8\<rparr>\<rparr> \<and>
   isIntersecting Rectangle_edges Circle_edges (Brick_new 62 70)
     ((Ball_new (27 + 3 / 2 ^ 18) (55 + 3 / 2 ^ 18))\<lparr>velocity := \<lparr>vx = 8, vy = 8\<rparr>\<rparr>) \<and>
   overlapLeft (Brick_new 62 70)
     ((Ball_new (27 + 3 / 2 ^ 18) (55 + 3 / 2 ^ 18))\<lparr>velocity := \<lparr>vx = 8, vy = 8\<rparr>\<rparr>) = 5 + 3 / 2 ^ 18 \<and>
   overlapTop (Brick_new 62 70)
     ((Ball_new (27 + 3 / 2 ^ 18) (55 + 3 / 2 ^ 18))\<lparr>velocity := \<lparr>vx = 8, vy = 8\<rparr>\<rparr>) = 5 + 1 / 2 ^ 16 \<and>
   snd (solveBrickBallCollision (Brick_new 62 70)
     ((Ball_new (27 + 3 / 2 ^ 18) (55 + 3 / 2 ^ 18))\<lparr>velocity := \<lparr>vx = 8, vy = 8\<rparr>\<rparr>)) =
     (Ball_new (27 + 3 / 2 ^ 18) (55 + 3 / 2 ^ 18))\<lparr>velocity := \<lparr>vx = - 8, vy = 8\<rparr>\<rparr>"
proof -
  have i1: "isIntersecting Rectangle_edges Circle_edges (Brick_new 100 100)
     ((Ball_new 65 100)\<lparr>velocity := \<lparr>vx = 8, vy = - 8\<rparr>\<rparr>)"
    by (simp add: isIntersecting_Rectangle_Circle Brick_new_edges Ball_new_edges float_defs)
  have i2: "isIntersecting Rectangle_edges Circle_edges (Brick_new 100 100)
     ((Ball_new 100 85)\<lparr>velocity := \<lparr>vx = 8, vy = 8\<rparr>\<rparr>)"
    by (simp add: isIntersecting_Rectangle_Circle Brick_new_edges Ball_new_edges float_defs)
  have i3: "isIntersecting Rectangle_edges Circle_edges (Brick_new 62 70)
     ((Ball_new (27 + 3 / 2 ^ 18) (55 + 3 / 2 ^ 18))\<lparr>velocity := \<lparr>vx = 8, vy = 8\<rparr>\<rparr>)"
    by (simp add: isIntersecting_Rectangle_Circle Brick_new_edges Ball_new_edges float_defs
          f32_eval)
  have o: "overlapLeft (Brick_new 62 70)
       ((Ball_new (27 + 3 / 2 ^ 18) (55 + 3 / 2 ^ 18))\<lparr>velocity := \<lparr>vx = 8, vy = 8\<rparr>\<rparr>) = 5 + 3 / 2 ^ 18"
    "overlapRight (Brick_new 62 70)
       ((Ball_new (27 + 3 / 2 ^ 18) (55 + 3 / 2 ^ 18))\<lparr>velocity := \<lparr>vx = 8, vy = 8\<rparr>\<rparr>) = 75 - 1 / 2 ^ 16"
    "overlapTop (Brick_new 62 70)
       ((Ball_new (27 + 3 / 2 ^ 18) (55 + 3 / 2 ^ 18))\<lparr>velocity := \<lparr>vx = 8, vy = 8\<rparr>\<rparr>) = 5 + 1 / 2 ^ 16"
    "overlapBottom (Brick_new 62 70)
       ((Ball_new (27 + 3 / 2 ^ 18) (55 + 3 / 2 ^ 18))\<lparr>velocity := \<lparr>vx = 8, vy = 8\<rparr>\<rparr>) = 35 - 3 / 2 ^ 18"
    by (simp_all add: overlap_defs Brick_new_edges Ball_new_edges float_defs f32_eval)
  have a: "snd (solveBrickBallCollision (Brick_new 100 100)
       ((Ball_new 65 100)\<lparr>velocity := \<lparr>vx = 8, vy = - 8\<rparr>\<rparr>)) =
     (Ball_new 65 100)\<lparr>velocity := \<lparr>vx = - 8, vy = - 8\<rparr>\<rparr>"
    "snd (solveBrickBallCollision (Brick_new 100 100)
       ((Ball_new 100 85)\<lparr>velocity := \<lparr>vx = 8, vy = 8\<rparr>\<rparr>)) =
     (Ball_new 100 85)\<lparr>velocity := \<lparr>vx = 8, vy = - 8\<rparr>\<rparr>"
    using solveBrickBallCollision_smaller_axis [OF i1]
      solveBrickBallCollision_smaller_axis [OF i2]
    by (simp_all add: overlap_defs Brick_new_edges Ball_new_edges Ball_defVelocity_def
          float_defs)
  have b: "snd (solveBrickBallCollision (Brick_new 62 70)
       ((Ball_new (27 + 3 / 2 ^ 18) (55 + 3 / 2 ^ 18))\<lparr>velocity := \<lparr>vx = 8, vy = 8\<rparr>\<rparr>)) =
     (Ball_new (27 + 3 / 2 ^ 18) (55 + 3 / 2 ^ 18))\<lparr>velocity := \<lparr>vx = - 8, vy = 8\<rparr>\<rparr>"
    using solveBrickBallCollision_smaller_axis [OF i3]
    unfolding o by (simp add: Ball_defVelocity_def)
  from i1 a(1) i2 a(2) i3 o(1) o(3) b show ?thesis
    by (intro conjI)
qed

text \<open>
  C3 (as amended). For an intersecting brick and ball: when the selected vertical overlap
  is at most the selected horizontal one in absolute value, only the vertical velocity
  component is set (to \<open>-defVelocity\<close> if the top side was the smaller, else to
  \<open>+defVelocity\<close>) and the horizontal component is unchanged; when the ball overlaps more on
  the vertical axis than on the horizontal axis, only the horizontal component is set and
  the vertical one is unchanged.
\<close>

theorem solveBrickBallCollision_vertical_when_not_larger:
  "isIntersecting Rectangle_edges Circle_edges mBrick mBall \<Longrightarrow>
   (min (abs (overlapTop mBrick mBall)) (abs (overlapBottom mBrick mBall))
      \<le> min (abs (overlapLeft mBrick mBall)) (abs (overlapRight mBrick mBall)) \<longrightarrow>
    vx (velocity (snd (solveBrickBallCollision mBrick mBall))) = vx (velocity mBall) \<and>
    vy (velocity (snd (solveBrickBallCollision mBrick mBall))) =
        (if abs (overlapTop mBrick mBall) < abs (overlapBottom mBrick mBall)
         then - Ball_defVelocity else Ball_defVelocity)) \<and>
   (min (abs (overlapLeft mBrick mBall)) (abs (overlapRight mBrick mBall))
      < min (abs (overlapTop mBrick mBall)) (abs (overlapBottom mBrick mBall)) \<longrightarrow>
    vy (velocity (snd (solveBrickBallCollision mBrick mBall))) = vy (velocity mBall) \<and>
    vx (velocity (snd (solveBrickBallCollision mBrick mBall))) =
        (if abs (overlapLeft mBrick mBall) < abs (overlapRight mBrick mBall)
         then - Ball_defVelocity else Ball_defVelocity))"
  by (simp only: solveBrickBallCollision_hit snd_conv) simp

theorem solveBrickBallCollision_vertical_when_not_larger_witness:
  "isIntersecting Rectangle_edges Circle_edges (Brick_new 100 100)
     ((Ball_new 100 85)\<lparr>velocity := \<lparr>vx = 8, vy = 8\<rparr>\<rparr>) \<and>
   vx (velocity (snd (solveBrickBallCollision (Brick_new 100 100)
     ((Ball_new 100 85)\<lparr>velocity := \<lparr>vx = 8, vy = 8\<rparr>\<rparr>)))) = 8 \<and>
   vy (velocity (snd (solveBrickBallCollision (Brick_new 100 100)
     ((Ball_new 100 85)\<lparr>velocity := \<lparr>vx = 8, vy = 8\<rparr>\<rparr>)))) = - 8 \<and>
   isIntersecting Rectangle_edges Circle_edges (Brick_new 100 100)
     ((Ball_new 65 100)\<lparr>velocity := \<lparr>vx = 8, vy = - 8\<rparr>\<rparr>) \<and>
   vx (velocity (snd (solveBrickBallCollision (Brick_new 100 100)
     ((Ball_new 65 100)\<lparr>velocity := \<lparr>vx = 8, vy = - 8\<rparr>\<rparr>)))) = - 8 \<and>
   vy (velocity (snd (solveBrickBallCollision (Brick_new 100 100)
     ((Ball_new 65 100)\<lparr>velocity := \<lparr>vx = 8, vy = - 8\<rparr>\<rparr>)))) = - 8 \<and>
   isIntersecting Rectangle_edges Circle_edges (Brick_new 90 100)
     ((Ball_new (55 - 1 / 2 ^ 18) 85)\<lparr>velocity := \<lparr>vx = 8, vy = 8\<rparr>\<rparr>) \<and>
   vx (velocity (snd (solveBrickBallCollision (Brick_new 90 100)
     ((Ball_new (55 - 1 / 2 ^ 18) 85)\<lparr>velocity := \<lparr>vx = 8, vy = 8\<rparr>\<rparr>)))) = 8 \<and>
   vy (velocity (snd (solveBrickBallCollision (Brick_new 90 100)
     ((Ball_new (55 - 1 / 2 ^ 18) 85)\<lparr>velocity := \<lparr>vx = 8, vy = 8\<rparr>\<rparr>)))) = - 8"
proof -
  have i1: "isIntersecting Rectangle_edges Circle_edges (Brick_new 100 100)
     ((Ball_new 100 85)\<lparr>velocity := \<lparr>vx = 8, vy = 8\<rparr>\<rparr>)"
    by (simp add: isIntersecting_Rectangle_Circle Brick_new_edges Ball_new_edges float_defs)
  have i2: "isIntersecting Rectangle_edges Circle_edges (Brick_new 100 100)
     ((Ball_new 65 100)\<lparr>velocity := \<lparr>vx = 8, vy = - 8\<rparr>\<rparr>)"
    by (simp add: isIntersecting_Rectangle_Circle Brick_new_edges Ball_new_edges float_defs)
  have i3: "isIntersecting Rectangle_edges Circle_edges (Brick_new 90 100)
     ((Ball_new (55 - 1 / 2 ^ 18) 85)\<lparr>velocity := \<lparr>vx = 8, vy = 8\<rparr>\<rparr>)"
    by (simp add: isIntersecting_Rectangle_Circle Brick_new_edges Ball_new_edges float_defs
          f32_eval)
  have o: "overlapLeft (Brick_new 90 100)
       ((Ball_new (55 - 1 / 2 ^ 18) 85)\<lparr>velocity := \<lparr>vx = 8, vy = 8\<rparr>\<rparr>) = 5"
    "overlapRight (Brick_new 90 100)
       ((Ball_new (55 - 1 / 2 ^ 18) 85)\<lparr>velocity := \<lparr>vx = 8, vy = 8\<rparr>\<rparr>) = 75"
    "overlapTop (Brick_new 90 100)
       ((Ball_new (55 - 1 / 2 ^ 18) 85)\<lparr>velocity := \<lparr>vx = 8, vy = 8\<rparr>\<rparr>) = 5"
    "overlapBottom (Brick_new 90 100)
       ((Ball_new (55 - 1 / 2 ^ 18) 85)\<lparr>velocity := \<lparr>vx = 8, vy = 8\<rparr>\<rparr>) = 35"
    by (simp_all add: overlap_defs Brick_new_edges Ball_new_edges float_defs f32_eval)
  have a: "vx (velocity (snd (solveBrickBallCollision (Brick_new 100 100)
       ((Ball_new 100 85)\<lparr>velocity := \<lparr>vx = 8, vy = 8\<rparr>\<rparr>)))) = 8"
    "vy (velocity (snd (solveBrickBallCollision (Brick_new 100 100)
       ((Ball_new 100 85)\<lparr>velocity := \<lparr>vx = 8, vy = 8\<rparr>\<rparr>)))) = - 8"
    "vx (velocity (snd (solveBrickBallCollision (Brick_new 100 100)
       ((Ball_new 65 100)\<lparr>velocity := \<lparr>vx = 8, vy = - 8\<rparr>\<rparr>)))) = - 8"
    "vy (velocity (snd (solveBrickBallCollision (Brick_new 100 100)
       ((Ball_new 65 100)\<lparr>velocity := \<lparr>vx = 8, vy = - 8\<rparr>\<rparr>)))) = - 8"
    using solveBrickBallCollision_vertical_when_not_larger [OF i1]
      solveBrickBallCollision_vertical_when_not_larger [OF i2]
    by (simp_all add: overlap_defs Brick_new_edges Ball_new_edges Ball_defVelocity_def
          float_defs)
  have b: "vx (velocity (snd (solveBrickBallCollision (Brick_new 90 100)
       ((Ball_new (55 - 1 / 2 ^ 18) 85)\<lparr>velocity := \<lparr>vx = 8, vy = 8\<rparr>\<rparr>)))) = 8"
    "vy (velocity (snd (solveBrickBallCollision (Brick_new 90 100)
       ((Ball_new (55 - 1 / 2 ^ 18) 85)\<lparr>velocity := \<lparr>vx = 8, vy = 8\<rparr>\<rparr>)))) = - 8"
    using solveBrickBallCollision_vertical_when_not_larger [OF i3]
    unfolding o by (simp_all add: Ball_defVelocity_def)
  from i1 a(1) a(2) i2 a(3) a(4) i3 b show ?thesis
    by (intro conjI)
qed

text \<open>
  C3 as stated fails: the ball at \<open>(65, 100)\<close> with velocity \<open>(8, -8)\<close> meets the left
  side of the brick at \<open>(100, 100)\<close>. It overlaps the brick by 20 on the vertical axis and
  by 5 on the horizontal axis, yet its vertical velocity stays \<open>-8\<close> and its horizontal
  velocity changes from 8 to \<open>-8\<close>.
\<close>

theorem vertical_overlap_larger_counterexample:
  "isIntersecting Rectangle_edges Circle_edges (Brick_new 100 100)
     ((Ball_new 65 100)\<lparr>velocity := \<lparr>vx = 8, vy = - 8\<rparr>\<rparr>) \<and>
   min (abs (overlapTop (Brick_new 100 100) ((Ball_new 65 100)\<lparr>velocity := \<lparr>vx = 8, vy = - 8\<rparr>\<rparr>)))
       (abs (overlapBottom (Brick_new 100 100) ((Ball_new 65 100)\<lparr>velocity := \<lparr>vx = 8, vy = - 8\<rparr>\<rparr>)))
     = 20 \<and>
   min (abs (overlapLeft (Brick_new 100 100) ((Ball_new 65 100)\<lparr>velocity := \<lparr>vx = 8, vy = - 8\<rparr>\<rparr>)))
       (abs (overlapRight (Brick_new 100 100) ((Ball_new 65 100)\<lparr>velocity := \<lparr>vx = 8, vy = - 8\<rparr>\<rparr>)))
     = 5 \<and>
   vy (velocity (snd (solveBrickBallCollision (Brick_new 100 100)
     ((Ball_new 65 100)\<lparr>velocity := \<lparr>vx = 8, vy = - 8\<rparr>\<rparr>)))) =
     vy (velocity ((Ball_new 65 100)\<lparr>velocity := \<lparr>vx = 8, vy = - 8\<rparr>\<rparr>)) \<and>
   vx (velocity (snd (solveBrickBallCollision (Brick_new 100 100)
     ((Ball_new 65 100)\<lparr>velocity := \<lparr>vx = 8, vy = - 8\<rparr>\<rparr>)))) \<noteq>
     vx (velocity ((Ball_new 65 100)\<lparr>velocity := \<lparr>vx = 8, vy = - 8\<rparr>\<rparr>))"
proof -
  have i: "isIntersecting Rectangle_edges Circle_edges (Brick_new 100 100)
     ((Ball_new 65 100)\<lparr>velocity := \<lparr>vx = 8, vy = - 8\<rparr>\<rparr>)"
    by (simp add: isIntersecting_Rectangle_Circle Brick_new_edges Ball_new_edges float_defs)
  show ?thesis
    using i
    by (simp add: solveBrickBallCollision_hit [OF i] overlap_defs Brick_new_edges Ball_new_edges
          Ball_defVelocity_def float_defs)
qed

text \<open>
  C10. For an intersecting brick and ball whose two selected overlaps have equal absolute
  values, the ball is the old ball with only \<open>velocity.y\<close> set (to \<open>-defVelocity\<close> if the
  top side was the smaller vertical side, else to \<open>+defVelocity\<close>): the horizontal
  component is unchanged.
\<close>

theorem solveBrickBallCollision_axis_tie:
  "isIntersecting Rectangle_edges Circle_edges mBrick mBall \<Longrightarrow>
   min (abs (overlapLeft mBrick mBall)) (abs (overlapRight mBrick mBall))
      = min (abs (overlapTop mBrick mBall)) (abs (overlapBottom mBrick mBall)) \<Longrightarrow>
   snd (solveBrickBallCollision mBrick mBall) =
      mBall\<lparr>velocity := (velocity mBall)\<lparr>vy :=
        (if abs (overlapTop mBrick mBall) < abs (overlapBottom mBrick mBall)
         then - Ball_defVelocity else Ball_defVelocity)\<rparr>\<rparr>"
  by (simp only: solveBrickBallCollision_hit snd_conv) simp

theorem solveBrickBallCollision_axis_tie_witness:
  "isIntersecting Rectangle_edges Circle_edges (Brick_new 100 100)
     ((Ball_new 65 85)\<lparr>velocity := \<lparr>vx = 8, vy = 8\<rparr>\<rparr>) \<and>
   abs (overlapLeft (Brick_new 100 100) ((Ball_new 65 85)\<lparr>velocity := \<lparr>vx = 8, vy = 8\<rparr>\<rparr>)) = 5 \<and>
   abs (overlapTop (Brick_new 100 100) ((Ball_new 65 85)\<lparr>velocity := \<lparr>vx = 8, vy = 8\<rparr>\<rparr>)) = 5 \<and>
   snd (solveBrickBallCollision (Brick_new 100 100)
     ((Ball_new 65 85)\<lparr>velocity := \<lparr>vx = 8, vy = 8\<rparr>\<rparr>)) =
     (Ball_new 65 85)\<lparr>velocity := \<lparr>vx = 8, vy = - 8\<rparr>\<rparr> \<and>
   isIntersecting Rectangle_edges Circle_edges (Brick_new 90 100)
     ((Ball_new (55 - 1 / 2 ^ 18) 85)\<lparr>velocity := \<lparr>vx = 8, vy = 8\<rparr>\<rparr>) \<and>
   abs (overlapLeft (Brick_new 90 100)
     ((Ball_new (55 - 1 / 2 ^ 18) 85)\<lparr>velocity := \<lparr>vx = 8, vy = 8\<rparr>\<rparr>)) = 5 \<and>
   abs (overlapTop (Brick_new 90 100)
     ((Ball_new (55 - 1 / 2 ^ 18) 85)\<lparr>velocity := \<lparr>vx = 8, vy = 8\<rparr>\<rparr>)) = 5 \<and>
   snd (solveBrickBallCollision (Brick_new 90 100)
     ((Ball_new (55 - 1 / 2 ^ 18) 85)\<lparr>velocity := \<lparr>vx = 8, vy = 8\<rparr>\<rparr>)) =
     (Ball_new (55 - 1 / 2 ^ 18) 85)\<lparr>velocity := \<lparr>vx = 8, vy = - 8\<rparr>\<rparr>"
proof -
  have i': "isIntersecting Rectangle_edges Circle_edges (Brick_new 90 100)
     ((Ball_new (55 - 1 / 2 ^ 18) 85)\<lparr>velocity := \<lparr>vx = 8, vy = 8\<rparr>\<rparr>)"
    by (simp add: isIntersecting_Rectangle_Circle Brick_new_edges Ball_new_edges float_defs
          f32_eval)
  have o: "overlapLeft (Brick_new 90 100)
       ((Ball_new (55 - 1 / 2 ^ 18) 85)\<lparr>velocity := \<lparr>vx = 8, vy = 8\<rparr>\<rparr>) = 5"
    "overlapRight (Brick_new 90 100)
       ((Ball_new (55 - 1 / 2 ^ 18) 85)\<lparr>velocity := \<lparr>vx = 8, vy = 8\<rparr>\<rparr>) = 75"
    "overlapTop (Brick_new 90 100)
       ((Ball_new (55 - 1 / 2 ^ 18) 85)\<lparr>velocity := \<lparr>vx = 8, vy = 8\<rparr>\<rparr>) = 5"
    "overlapBottom (Brick_new 90 100)
       ((Ball_new (55 - 1 / 2 ^ 18) 85)\<lparr>velocity := \<lparr>vx = 8, vy = 8\<rparr>\<rparr>) = 35"
    by (simp_all add: overlap_defs Brick_new_edges Ball_new_edges float_defs f32_eval)
  have t': "min (abs (overlapLeft (Brick_new 90 100)
         ((Ball_new (55 - 1 / 2 ^ 18) 85)\<lparr>velocity := \<lparr>vx = 8, vy = 8\<rparr>\<rparr>)))
       (abs (overlapRight (Brick_new 90 100)
         ((Ball_new (55 - 1 / 2 ^ 18) 85)\<lparr>velocity := \<lparr>vx = 8, vy = 8\<rparr>\<rparr>)))
     = min (abs (overlapTop (Brick_new 90 100)
         ((Ball_new (55 - 1 / 2 ^ 18) 85)\<lparr>velocity := \<lparr>vx = 8, vy = 8\<rparr>\<rparr>)))
       (abs (overlapBottom (Brick_new 90 100)
         ((Ball_new (55 - 1 / 2 ^ 18) 85)\<lparr>velocity := \<lparr>vx = 8, vy = 8\<rparr>\<rparr>)))"
    by (simp only: o)
  have b: "snd (solveBrickBallCollision (Brick_new 90 100)
       ((Ball_new (55 - 1 / 2 ^ 18) 85)\<lparr>velocity := \<lparr>vx = 8, vy = 8\<rparr>\<rparr>)) =
     (Ball_new (55 - 1 / 2 ^ 18) 85)\<lparr>velocity := \<lparr>vx = 8, vy = - 8\<rparr>\<rparr>"
    using solveBrickBallCollision_axis_tie [OF i' t']
    unfolding o by (simp add: Ball_defVelocity_def)
  have o': "abs (overlapLeft (Brick_new 90 100)
       ((Ball_new (55 - 1 / 2 ^ 18) 85)\<lparr>velocity := \<lparr>vx = 8, vy = 8\<rparr>\<rparr>)) = 5"
    "abs (overlapTop (Brick_new 90 100)
       ((Ball_new (55 - 1 / 2 ^ 18) 85)\<lparr>velocity := \<lparr>vx = 8, vy = 8\<rparr>\<rparr>)) = 5"
    unfolding o by simp_all
  have i: "isIntersecting Rectangle_edges Circle_edges (Brick_new 100 100)
     ((Ball_new 65 85)\<lparr>velocity := \<lparr>vx = 8, vy = 8\<rparr>\<rparr>)"
    by (simp add: isIntersecting_Rectangle_Circle Brick_new_edges Ball_new_edges float_defs)
  have t: "min (abs (overlapLeft (Brick_new 100 100) ((Ball_new 65 85)\<lparr>velocity := \<lparr>vx = 8, vy = 8\<rparr>\<rparr>)))
       (abs (overlapRight (Brick_new 100 100) ((Ball_new 65 85)\<lparr>velocity := \<lparr>vx = 8, vy = 8\<rparr>\<rparr>)))
     = min (abs (overlapTop (Brick_new 100 100) ((Ball_new 65 85)\<lparr>velocity := \<lparr>vx = 8, vy = 8\<rparr>\<rparr>)))
       (abs (overlapBottom (Brick_new 100 100) ((Ball_new 65 85)\<lparr>velocity := \<lparr>vx = 8, vy = 8\<rparr>\<rparr>)))"
    by (simp add: overlap_defs Brick_new_edges Ball_new_edges float_defs)
  have a: "abs (overlapLeft (Brick_new 100 100)
       ((Ball_new 65 85)\<lparr>velocity := \<lparr>vx = 8, vy = 8\<rparr>\<rparr>)) = 5"
    "abs (overlapTop (Brick_new 100 100)
       ((Ball_new 65 85)\<lparr>velocity := \<lparr>vx = 8, vy = 8\<rparr>\<rparr>)) = 5"
    "snd (solveBrickBallCollision (Brick_new 100 100)
       ((Ball_new 65 85)\<lparr>velocity := \<lparr>vx = 8, vy = 8\<rparr>\<rparr>)) =
     (Ball_new 65 85)\<lparr>velocity := \<lparr>vx = 8, vy = - 8\<rparr>\<rparr>"
    using solveBrickBallCollision_axis_tie [OF i t]
    by (simp_all add: overlap_defs Brick_new_edges Ball_new_edges Ball_defVelocity_def
          float_defs)
  from i a i' o' b show ?thesis
    by (intro conjI)
qed

subsection \<open>Ball against a brick: the hit count\<close>

text \<open>
  C4. When the brick and the ball do not intersect the brick is returned as it was. When
  they intersect, \<open>requiredHits\<close> is decremented by one (on the 32-bit word; as an
  integer too unless it was the least \<^verbatim>\<open>int\<close>), the flag \<open>destroyed\<close> is set if and only
  if the decremented value is at most 0 (a flag that was set stays set), and nothing else
  of the brick changes. Hence a brick with \<open>requiredHits = 1\<close> is destroyed by one hit, and
  a brick with \<open>requiredHits = 3\<close> that was not destroyed is, after two hits by the ball,
  still not destroyed and has \<open>requiredHits = 1\<close>.
\<close>

theorem solveBrickBallCollision_requiredHits:
  "(\<not> isIntersecting Rectangle_edges Circle_edges mBrick mBall \<longrightarrow>
      fst (solveBrickBallCollision mBrick mBall) = mBrick) \<and>
   (isIntersecting Rectangle_edges Circle_edges mBrick mBall \<longrightarrow>
      requiredHits (fst (solveBrickBallCollision mBrick mBall)) = requiredHits mBrick - 1 \<and>
      (sint (requiredHits mBrick) \<noteq> - (2 ^ 31) \<longrightarrow>
         sint (requiredHits (fst (solveBrickBallCollision mBrick mBall)))
           = sint (requiredHits mBrick) - 1) \<and>
      (destroyed (fst (solveBrickBallCollision mBrick mBall)) \<longleftrightarrow>
         destroyed mBrick \<or>
         sint (requiredHits (fst (solveBrickBallCollision mBrick mBall))) \<le> 0) \<and>
      fst (solveBrickBallCollision mBrick mBall) =
        mBrick\<lparr>destroyed := destroyed (fst (solveBrickBallCollision mBrick mBall)),
               requiredHits := requiredHits (fst (solveBrickBallCollision mBrick mBall))\<rparr> \<and>
      (requiredHits mBrick = 1 \<longrightarrow> destroyed (fst (solveBrickBallCollision mBrick mBall))) \<and>
      (requiredHits mBrick = 3 \<and> \<not> destroyed mBrick \<longrightarrow>
         requiredHits (fst (solveBrickBallCollision
             (fst (solveBrickBallCollision mBrick mBall))
             (snd (solveBrickBallCollision mBrick mBall)))) = 1 \<and>
         \<not> destroyed (fst (solveBrickBallCollision
             (fst (solveBrickBallCollision mBrick mBall))
             (snd (solveBrickBallCollision mBrick mBall))))))"
proof (cases "isIntersecting Rectangle_edges Circle_edges mBrick mBall")
  case False
  then show ?thesis
    by (simp add: solveBrickBallCollision_miss)
next
  case True
  define k1 where "k1 = fst (solveBrickBallCollision mBrick mBall)"
  define b1 where "b1 = snd (solveBrickBallCollision mBrick mBall)"
  have k1: "k1 = mBrick\<lparr>destroyed := destroyed mBrick \<or> sint (requiredHits mBrick - 1) \<le> 0,
                        requiredHits := requiredHits mBrick - 1\<rparr>"
    by (simp only: k1_def solveBrickBallCollision_hit [OF True] fst_conv)
  have again: "isIntersecting Rectangle_edges Circle_edges k1 b1"
    unfolding k1_def b1_def using True by (rule isIntersecting_after_hit)
  have k2: "fst (solveBrickBallCollision k1 b1) =
      k1\<lparr>destroyed := destroyed k1 \<or> sint (requiredHits k1 - 1) \<le> 0,
         requiredHits := requiredHits k1 - 1\<rparr>"
    by (simp only: solveBrickBallCollision_hit [OF again] fst_conv)
  have hits: "requiredHits k1 = requiredHits mBrick - 1"
    and flag: "destroyed k1 \<longleftrightarrow> destroyed mBrick \<or> sint (requiredHits mBrick - 1) \<le> 0"
    by (simp_all add: k1)
  have rest: "k1 = mBrick\<lparr>destroyed := destroyed k1, requiredHits := requiredHits k1\<rparr>"
    by (simp add: k1)
  have one: "requiredHits mBrick = 1 \<longrightarrow> destroyed k1"
    by (simp add: flag)
  have two: "requiredHits mBrick = 3 \<and> \<not> destroyed mBrick \<longrightarrow>
      requiredHits (fst (solveBrickBallCollision k1 b1)) = 1 \<and>
      \<not> destroyed (fst (solveBrickBallCollision k1 b1))"
    by (simp add: k2 hits flag)
  have dec: "sint (requiredHits mBrick) \<noteq> - (2 ^ 31) \<longrightarrow>
      sint (requiredHits k1) = sint (requiredHits mBrick) - 1"
    by (simp add: hits sint_decrement)
  from True hits flag rest one two dec show ?thesis
    unfolding k1_def b1_def by (simp only: simp_thms)
qed

theorem solveBrickBallCollision_requiredHits_witness:
  "\<not> isIntersecting Rectangle_edges Circle_edges (Brick_new 100 100) (Ball_new 400 300) \<and>
   fst (solveBrickBallCollision (Brick_new 100 100) (Ball_new 400 300)) = Brick_new 100 100 \<and>
   isIntersecting Rectangle_edges Circle_edges (Brick_new 100 100) (Ball_new 100 85) \<and>
   requiredHits (Brick_new 100 100) = 1 \<and>
   requiredHits (fst (solveBrickBallCollision (Brick_new 100 100) (Ball_new 100 85))) = 0 \<and>
   destroyed (fst (solveBrickBallCollision (Brick_new 100 100) (Ball_new 100 85))) \<and>
   isIntersecting Rectangle_edges Circle_edges
     ((Brick_new 100 100)\<lparr>requiredHits := 3\<rparr>) (Ball_new 100 85) \<and>
   requiredHits (fst (solveBrickBallCollision
     (fst (solveBrickBallCollision ((Brick_new 100 100)\<lparr>requiredHits := 3\<rparr>) (Ball_new 100 85)))
     (snd (solveBrickBallCollision ((Brick_new 100 100)\<lparr>requiredHits := 3\<rparr>) (Ball_new 100 85)))))
     = 1 \<and>
   \<not> destroyed (fst (solveBrickBallCollision
     (fst (solveBrickBallCollision ((Brick_new 100 100)\<lparr>requiredHits := 3\<rparr>) (Ball_new 100 85)))
     (snd (solveBrickBallCollision ((Brick_new 100 100)\<lparr>requiredHits := 3\<rparr>) (Ball_new 100 85))))) \<and>
   Rectangle_left (Brick_new 95 100) = Circle_right (Ball_new (55 - 1 / 2 ^ 18) 100) \<and>
   isIntersecting Rectangle_edges Circle_edges (Brick_new 95 100)
     (Ball_new (55 - 1 / 2 ^ 18) 100) \<and>
   requiredHits (fst (solveBrickBallCollision (Brick_new 95 100)
     (Ball_new (55 - 1 / 2 ^ 18) 100))) = 0 \<and>
   destroyed (fst (solveBrickBallCollision (Brick_new 95 100) (Ball_new (55 - 1 / 2 ^ 18) 100)))"
proof -
  have r: "Rectangle_left (Brick_new 95 100) = Circle_right (Ball_new (55 - 1 / 2 ^ 18) 100)"
    by (simp add: Brick_new_edges Ball_new_edges float_defs f32_eval)
  have i4: "isIntersecting Rectangle_edges Circle_edges (Brick_new 95 100)
     (Ball_new (55 - 1 / 2 ^ 18) 100)"
    by (simp add: isIntersecting_Rectangle_Circle Brick_new_edges Ball_new_edges float_defs
          f32_eval)
  have h4: "requiredHits (Brick_new 95 100) = 1"
    by (simp add: Brick_new_def)
  have b: "requiredHits (fst (solveBrickBallCollision (Brick_new 95 100)
       (Ball_new (55 - 1 / 2 ^ 18) 100))) = 0"
    "destroyed (fst (solveBrickBallCollision (Brick_new 95 100)
       (Ball_new (55 - 1 / 2 ^ 18) 100)))"
    using i4 h4
      solveBrickBallCollision_requiredHits [of "Brick_new 95 100"
        "Ball_new (55 - 1 / 2 ^ 18) 100"]
    by (simp_all only: simp_thms) simp_all
  have e: "Rectangle_left (k\<lparr>requiredHits := n\<rparr>) = Rectangle_left k"
    "Rectangle_right (k\<lparr>requiredHits := n\<rparr>) = Rectangle_right k"
    "Rectangle_top (k\<lparr>requiredHits := n\<rparr>) = Rectangle_top k"
    "Rectangle_bottom (k\<lparr>requiredHits := n\<rparr>) = Rectangle_bottom k" for k :: Brick and n
    by (simp_all add: edge_defs)
  have i0: "\<not> isIntersecting Rectangle_edges Circle_edges (Brick_new 100 100) (Ball_new 400 300)"
    by (simp add: isIntersecting_Rectangle_Circle Brick_new_edges Ball_new_edges float_defs)
  have i1: "isIntersecting Rectangle_edges Circle_edges (Brick_new 100 100) (Ball_new 100 85)"
    by (simp add: isIntersecting_Rectangle_Circle Brick_new_edges Ball_new_edges float_defs)
  have i3: "isIntersecting Rectangle_edges Circle_edges
     ((Brick_new 100 100)\<lparr>requiredHits := 3\<rparr>) (Ball_new 100 85)"
    by (simp add: isIntersecting_Rectangle_Circle e Brick_new_edges Ball_new_edges float_defs)
  have h: "requiredHits (Brick_new 100 100) = 1" "\<not> destroyed (Brick_new 100 100)"
    by (simp_all add: Brick_new_def)
  have h3: "requiredHits ((Brick_new 100 100)\<lparr>requiredHits := 3\<rparr>) = 3"
    "\<not> destroyed ((Brick_new 100 100)\<lparr>requiredHits := 3\<rparr>)"
    by (simp_all add: Brick_new_def)
  have a: "\<not> isIntersecting Rectangle_edges Circle_edges (Brick_new 100 100) (Ball_new 400 300) \<and>
   fst (solveBrickBallCollision (Brick_new 100 100) (Ball_new 400 300)) = Brick_new 100 100 \<and>
   isIntersecting Rectangle_edges Circle_edges (Brick_new 100 100) (Ball_new 100 85) \<and>
   requiredHits (Brick_new 100 100) = 1 \<and>
   requiredHits (fst (solveBrickBallCollision (Brick_new 100 100) (Ball_new 100 85))) = 0 \<and>
   destroyed (fst (solveBrickBallCollision (Brick_new 100 100) (Ball_new 100 85))) \<and>
   isIntersecting Rectangle_edges Circle_edges
     ((Brick_new 100 100)\<lparr>requiredHits := 3\<rparr>) (Ball_new 100 85) \<and>
   requiredHits (fst (solveBrickBallCollision
     (fst (solveBrickBallCollision ((Brick_new 100 100)\<lparr>requiredHits := 3\<rparr>) (Ball_new 100 85)))
     (snd (solveBrickBallCollision ((Brick_new 100 100)\<lparr>requiredHits := 3\<rparr>) (Ball_new 100 85)))))
     = 1 \<and>
   \<not> destroyed (fst (solveBrickBallCollision
     (fst (solveBrickBallCollision ((Brick_new 100 100)\<lparr>requiredHits := 3\<rparr>) (Ball_new 100 85)))
     (snd (solveBrickBallCollision ((Brick_new 100 100)\<lparr>requiredHits := 3\<rparr>) (Ball_new 100 85)))))"
    using i0 i1 i3 h h3
      solveBrickBallCollision_requiredHits [of "Brick_new 100 100" "Ball_new 400 300"]
      solveBrickBallCollision_requiredHits [of "Brick_new 100 100" "Ball_new 100 85"]
      solveBrickBallCollision_requiredHits [of "(Brick_new 100 100)\<lparr>requiredHits := 3\<rparr>"
        "Ball_new 100 85"]
    by (simp only: simp_thms) simp
  from a r i4 b show ?thesis
    by (simp only: simp_thms)
qed

subsection \<open>Ball against the paddle\<close>

lemma solvePaddleBallCollision_hit:
  assumes "isIntersecting Rectangle_edges Circle_edges mPaddle mBall"
  shows "solvePaddleBallCollision mPaddle mBall =
    mBall\<lparr>velocity :=
      \<lparr>vx = (if xpos mBall < xpos mPaddle then - Ball_defVelocity else Ball_defVelocity),
       vy = - Ball_defVelocity\<rparr>\<rparr>"
proof -
  have "solvePaddleBallCollision mPaddle mBall =
     (let b1 = mBall\<lparr>velocity := (velocity mBall)\<lparr>vy := - Ball_defVelocity\<rparr>\<rparr>
        in b1\<lparr>velocity := (velocity b1)
               \<lparr>vx := (if xpos b1 < xpos mPaddle then - Ball_defVelocity
                       else Ball_defVelocity)\<rparr>\<rparr>)"
    using assms by (simp only: solvePaddleBallCollision_def simp_thms if_False)
  then show ?thesis
    by (simp add: Let_def)
qed

text \<open>
  C5. When the paddle and the ball do not intersect the ball is returned as it was. When
  they intersect, the ball is the old ball with its velocity set: the vertical component
  to \<open>-defVelocity\<close>, the horizontal component to \<open>-defVelocity\<close> when \<open>ball.x < paddle.x\<close>
  and to \<open>+defVelocity\<close> otherwise; equal centres give \<open>+defVelocity\<close>.
\<close>

theorem solvePaddleBallCollision_velocity:
  "(\<not> isIntersecting Rectangle_edges Circle_edges mPaddle mBall \<longrightarrow>
      solvePaddleBallCollision mPaddle mBall = mBall) \<and>
   (isIntersecting Rectangle_edges Circle_edges mPaddle mBall \<longrightarrow>
      solvePaddleBallCollision mPaddle mBall =
        mBall\<lparr>velocity :=
          \<lparr>vx = (if xpos mBall < xpos mPaddle then - Ball_defVelocity else Ball_defVelocity),
           vy = - Ball_defVelocity\<rparr>\<rparr> \<and>
      (xpos mBall = xpos mPaddle \<longrightarrow>
         vx (velocity (solvePaddleBallCollision mPaddle mBall)) = Ball_defVelocity))"
proof (cases "isIntersecting Rectangle_edges Circle_edges mPaddle mBall")
  case False
  then show ?thesis
    by (simp only: solvePaddleBallCollision_def simp_thms if_True)
next
  case True
  then show ?thesis
    by (simp add: solvePaddleBallCollision_hit)
qed

theorem solvePaddleBallCollision_velocity_witness:
  "\<not> isIntersecting Rectangle_edges Circle_edges (Paddle_new 400 550) (Ball_new 400 300) \<and>
   solvePaddleBallCollision (Paddle_new 400 550) (Ball_new 400 300) = Ball_new 400 300 \<and>
   isIntersecting Rectangle_edges Circle_edges (Paddle_new 400 550)
     ((Ball_new 390 535)\<lparr>velocity := \<lparr>vx = - 8, vy = 8\<rparr>\<rparr>) \<and>
   velocity (solvePaddleBallCollision (Paddle_new 400 550)
     ((Ball_new 390 535)\<lparr>velocity := \<lparr>vx = - 8, vy = 8\<rparr>\<rparr>)) = \<lparr>vx = - 8, vy = - 8\<rparr> \<and>
   isIntersecting Rectangle_edges Circle_edges (Paddle_new 400 550)
     ((Ball_new 400 535)\<lparr>velocity := \<lparr>vx = - 8, vy = 8\<rparr>\<rparr>) \<and>
   velocity (solvePaddleBallCollision (Paddle_new 400 550)
     ((Ball_new 400 535)\<lparr>velocity := \<lparr>vx = - 8, vy = 8\<rparr>\<rparr>)) = \<lparr>vx = 8, vy = - 8\<rparr> \<and>
   Rectangle_left (Paddle_new 95 550) = Circle_right
     ((Ball_new (55 - 1 / 2 ^ 18) 550)\<lparr>velocity := \<lparr>vx = 8, vy = 8\<rparr>\<rparr>) \<and>
   isIntersecting Rectangle_edges Circle_edges (Paddle_new 95 550)
     ((Ball_new (55 - 1 / 2 ^ 18) 550)\<lparr>velocity := \<lparr>vx = 8, vy = 8\<rparr>\<rparr>) \<and>
   velocity (solvePaddleBallCollision (Paddle_new 95 550)
     ((Ball_new (55 - 1 / 2 ^ 18) 550)\<lparr>velocity := \<lparr>vx = 8, vy = 8\<rparr>\<rparr>)) = \<lparr>vx = - 8, vy = - 8\<rparr>"
proof -
  have r: "Rectangle_left (Paddle_new 95 550) = Circle_right
     ((Ball_new (55 - 1 / 2 ^ 18) 550)\<lparr>velocity := \<lparr>vx = 8, vy = 8\<rparr>\<rparr>)"
    by (simp add: Paddle_new_edges Ball_new_edges float_defs f32_eval)
  have i3: "isIntersecting Rectangle_edges Circle_edges (Paddle_new 95 550)
     ((Ball_new (55 - 1 / 2 ^ 18) 550)\<lparr>velocity := \<lparr>vx = 8, vy = 8\<rparr>\<rparr>)"
    by (simp add: isIntersecting_Rectangle_Circle Paddle_new_edges Ball_new_edges float_defs
          f32_eval)
  have i0: "\<not> isIntersecting Rectangle_edges Circle_edges (Paddle_new 400 550) (Ball_new 400 300)"
    by (simp add: isIntersecting_Rectangle_Circle Paddle_new_edges Ball_new_edges float_defs)
  have i1: "isIntersecting Rectangle_edges Circle_edges (Paddle_new 400 550)
     ((Ball_new 390 535)\<lparr>velocity := \<lparr>vx = - 8, vy = 8\<rparr>\<rparr>)"
    by (simp add: isIntersecting_Rectangle_Circle Paddle_new_edges Ball_new_edges float_defs)
  have i2: "isIntersecting Rectangle_edges Circle_edges (Paddle_new 400 550)
     ((Ball_new 400 535)\<lparr>velocity := \<lparr>vx = - 8, vy = 8\<rparr>\<rparr>)"
    by (simp add: isIntersecting_Rectangle_Circle Paddle_new_edges Ball_new_edges float_defs)
  have x: "xpos ((Ball_new mX mY)\<lparr>velocity := v\<rparr>) = mX" "xpos (Paddle_new mX mY) = mX"
    for mX mY v
    by (simp_all add: Ball_new_def Paddle_new_def)
  have a: "\<not> isIntersecting Rectangle_edges Circle_edges (Paddle_new 400 550) (Ball_new 400 300) \<and>
   solvePaddleBallCollision (Paddle_new 400 550) (Ball_new 400 300) = Ball_new 400 300 \<and>
   isIntersecting Rectangle_edges Circle_edges (Paddle_new 400 550)
     ((Ball_new 390 535)\<lparr>velocity := \<lparr>vx = - 8, vy = 8\<rparr>\<rparr>) \<and>
   velocity (solvePaddleBallCollision (Paddle_new 400 550)
     ((Ball_new 390 535)\<lparr>velocity := \<lparr>vx = - 8, vy = 8\<rparr>\<rparr>)) = \<lparr>vx = - 8, vy = - 8\<rparr> \<and>
   isIntersecting Rectangle_edges Circle_edges (Paddle_new 400 550)
     ((Ball_new 400 535)\<lparr>velocity := \<lparr>vx = - 8, vy = 8\<rparr>\<rparr>) \<and>
   velocity (solvePaddleBallCollision (Paddle_new 400 550)
     ((Ball_new 400 535)\<lparr>velocity := \<lparr>vx = - 8, vy = 8\<rparr>\<rparr>)) = \<lparr>vx = 8, vy = - 8\<rparr>"
    using i0 i1 i2
      solvePaddleBallCollision_velocity [of "Paddle_new 400 550" "Ball_new 400 300"]
      solvePaddleBallCollision_velocity [of "Paddle_new 400 550"
        "(Ball_new 390 535)\<lparr>velocity := \<lparr>vx = - 8, vy = 8\<rparr>\<rparr>"]
      solvePaddleBallCollision_velocity [of "Paddle_new 400 550"
        "(Ball_new 400 535)\<lparr>velocity := \<lparr>vx = - 8, vy = 8\<rparr>\<rparr>"]
    by (simp add: x Ball_defVelocity_def)
  have b: "velocity (solvePaddleBallCollision (Paddle_new 95 550)
     ((Ball_new (55 - 1 / 2 ^ 18) 550)\<lparr>velocity := \<lparr>vx = 8, vy = 8\<rparr>\<rparr>)) = \<lparr>vx = - 8, vy = - 8\<rparr>"
    using i3 solvePaddleBallCollision_velocity [of "Paddle_new 95 550"
        "(Ball_new (55 - 1 / 2 ^ 18) 550)\<lparr>velocity := \<lparr>vx = 8, vy = 8\<rparr>\<rparr>"]
    by (simp add: x Ball_defVelocity_def)
  from a r i3 b show ?thesis
    by (simp only: simp_thms)
qed

subsection \<open>The intersection test\<close>

text \<open>
  C9. For any two shape types and any two shapes, \<^verbatim>\<open>isIntersecting(A, B)\<close> equals
  \<^verbatim>\<open>isIntersecting(B, A)\<close>, and the test includes the boundary: two shapes (each with
  \<open>left() <= right()\<close> and \<open>top() <= bottom()\<close>) that touch, \<open>A.right() == B.left()\<close> with
  overlapping vertical extents or \<open>A.bottom() == B.top()\<close> with overlapping horizontal
  extents, intersect.
\<close>

theorem isIntersecting_symmetric_inclusive:
  "isIntersecting T1 T2 mA mB = isIntersecting T2 T1 mB mA \<and>
   (rightOf T1 mA = leftOf T2 mB \<and> leftOf T1 mA \<le> rightOf T1 mA \<and>
    leftOf T2 mB \<le> rightOf T2 mB \<and>
    topOf T2 mB \<le> bottomOf T1 mA \<and> topOf T1 mA \<le> bottomOf T2 mB \<longrightarrow>
      isIntersecting T1 T2 mA mB) \<and>
   (bottomOf T1 mA = topOf T2 mB \<and> topOf T1 mA \<le> bottomOf T1 mA \<and>
    topOf T2 mB \<le> bottomOf T2 mB \<and>
    leftOf T2 mB \<le> rightOf T1 mA \<and> leftOf T1 mA \<le> rightOf T2 mB \<longrightarrow>
      isIntersecting T1 T2 mA mB)"
  by (auto simp add: isIntersecting_def)

theorem isIntersecting_symmetric_inclusive_witness:
  "Rectangle_right (Paddle_new 400 550) = Circle_left (Ball_new 440 550) \<and>
   isIntersecting Rectangle_edges Circle_edges (Paddle_new 400 550) (Ball_new 440 550) \<and>
   isIntersecting Circle_edges Rectangle_edges (Ball_new 440 550) (Paddle_new 400 550) \<and>
   Circle_bottom (Ball_new 400 530) = Rectangle_top (Paddle_new 400 550) \<and>
   isIntersecting Circle_edges Rectangle_edges (Ball_new 400 530) (Paddle_new 400 550) \<and>
   isIntersecting Rectangle_edges Circle_edges (Paddle_new 400 550) (Ball_new 400 530)"
proof -
  have ops: "leftOf Rectangle_edges = Rectangle_left" "rightOf Rectangle_edges = Rectangle_right"
    "topOf Rectangle_edges = Rectangle_top" "bottomOf Rectangle_edges = Rectangle_bottom"
    "leftOf Circle_edges = Circle_left" "rightOf Circle_edges = Circle_right"
    "topOf Circle_edges = Circle_top" "bottomOf Circle_edges = Circle_bottom"
    by (simp_all add: Rectangle_edges_def Circle_edges_def)
  have t1: "Rectangle_right (Paddle_new 400 550) = Circle_left (Ball_new 440 550)"
    and t2: "Circle_bottom (Ball_new 400 530) = Rectangle_top (Paddle_new 400 550)"
    by (simp_all add: Paddle_new_edges Ball_new_edges float_defs)
  note th1 = isIntersecting_symmetric_inclusive
      [of Rectangle_edges Circle_edges "Paddle_new 400 550" "Ball_new 440 550"]
  note th2 = isIntersecting_symmetric_inclusive
      [of Circle_edges Rectangle_edges "Ball_new 400 530" "Paddle_new 400 550"]
  have a: "isIntersecting Rectangle_edges Circle_edges (Paddle_new 400 550) (Ball_new 440 550)"
    using th1 [THEN conjunct2, THEN conjunct1]
    by (simp add: ops Paddle_new_edges Ball_new_edges float_defs)
  have b: "isIntersecting Circle_edges Rectangle_edges (Ball_new 400 530) (Paddle_new 400 550)"
    using th2 [THEN conjunct2, THEN conjunct2]
    by (simp add: ops Paddle_new_edges Ball_new_edges float_defs)
  have a': "isIntersecting Circle_edges Rectangle_edges (Ball_new 440 550) (Paddle_new 400 550)"
    using a th1 [THEN conjunct1] by blast
  have b': "isIntersecting Rectangle_edges Circle_edges (Paddle_new 400 550) (Ball_new 400 530)"
    using b th2 [THEN conjunct1] by blast
  from t1 a a' t2 b b' show ?thesis
    by (intro conjI)
qed

subsection \<open>The store of the manager\<close>

lemma none_destroyed_alive: "none_destroyed hp ps = list_all (alive hp) ps"
  by (simp add: none_destroyed_def)

lemma erase_destroyed_valid:
  "list_all (\<lambda>ptr. deref hp ptr \<noteq> None) ps \<Longrightarrow>
   erase_destroyed hp ps = Some (filter (alive hp) ps)"
  by (induction ps) (auto simp: alive_def)

lemma erase_destroyed_Some:
  "erase_destroyed hp ps = Some qs \<Longrightarrow> list_all (\<lambda>ptr. deref hp ptr \<noteq> None) ps"
  by (induction ps arbitrary: qs) (auto split: option.splits)

lemma refresh_groups_valid:
  "list_all (\<lambda>(k, v). list_all (\<lambda>ptr. deref hp ptr \<noteq> None) v) gs \<Longrightarrow>
   refresh_groups hp gs = Some (map (\<lambda>(k, v). (k, filter (alive hp) v)) gs)"
  by (induction gs) (auto simp: erase_destroyed_valid)

lemma deref_delete: "deref (hp[q := None]) ptr = (if ptr = q then None else deref hp ptr)"
  by (auto simp: deref_def)

lemma alive_delete_destroyed:
  "alive hp ptr \<Longrightarrow> deref (delete_destroyed ps hp) ptr = deref hp ptr"
proof (induction ps arbitrary: hp)
  case Nil
  then show ?case by simp
next
  case (Cons q ps)
  show ?case
  proof (cases "deref hp q")
    case None
    with Cons show ?thesis by simp
  next
    case (Some e)
    show ?thesis
    proof (cases "Entity_destroyed e")
      case True
      with Some Cons.prems have ne: "ptr \<noteq> q"
        by (auto simp: alive_def)
      then have same: "deref (hp[q := None]) ptr = deref hp ptr"
        by (simp add: deref_delete)
      with Cons.prems have "alive (hp[q := None]) ptr"
        by (simp add: alive_def)
      then have "deref (delete_destroyed ps (hp[q := None])) ptr = deref (hp[q := None]) ptr"
        by (rule Cons.IH)
      with Some True same show ?thesis by simp
    next
      case False
      with Some Cons show ?thesis by simp
    qed
  qed
qed

lemma alive_after_delete:
  "alive hp ptr \<Longrightarrow> alive (delete_destroyed ps hp) ptr"
  by (simp add: alive_def alive_delete_destroyed)

lemma delete_destroyed_none:
  "list_all (alive hp) ps \<Longrightarrow> delete_destroyed ps hp = hp"
  by (induction ps) (auto simp: alive_def split: option.splits)

lemma erase_destroyed_none:
  "list_all (alive hp) ps \<Longrightarrow> erase_destroyed hp ps = Some ps"
  by (induction ps) (auto simp: alive_def split: option.splits)

lemma refresh_groups_none:
  "list_all (\<lambda>(k, v). list_all (alive hp) v) gs \<Longrightarrow> refresh_groups hp gs = Some gs"
  by (induction gs) (auto simp: erase_destroyed_none)

lemma Manager_refresh_valid:
  assumes "Manager_valid m"
  shows "Manager_refresh m =
    Some (m\<lparr>groupedEntities := map (\<lambda>(k, v). (k, filter (alive (heap m)) v)) (groupedEntities m),
            entities := filter (alive (heap m)) (entities m),
            heap := delete_destroyed (entities m) (heap m)\<rparr>)"
  using assms
  by (simp add: Manager_refresh_def Manager_valid_def refresh_groups_valid erase_destroyed_valid)

lemma filter_alive_after:
  "list_all (alive (delete_destroyed es hp)) (filter (alive hp) ps)"
  by (simp add: list_all_iff alive_after_delete)

lemma groups_alive_after:
  "list_all (\<lambda>(k, v). list_all (alive (delete_destroyed es hp)) v)
     (map (\<lambda>(k, v). (k, filter (alive hp) v)) gs)"
  by (induction gs) (auto simp: filter_alive_after)

lemma getAll_alive:
  "list_all (\<lambda>(k, v). list_all (alive hp) v) (groupedEntities m) \<Longrightarrow>
   list_all (alive hp) (fst (Manager_getAll key m))"
  by (auto simp: Manager_getAll_def list_all_iff split: option.splits dest: map_of_SomeD)

lemma Manager_valid_new: "Manager_valid Manager_new"
  by (simp add: Manager_valid_def Manager_new_def)

lemma Manager_valid_clear: "Manager_valid (Manager_clear m)"
  by (simp add: Manager_valid_def Manager_clear_def)

lemma deref_append:
  "deref (hp @ [Some obj]) ptr = (if ptr = length hp then Some obj else deref hp ptr)"
  by (auto simp: deref_def nth_append)

lemma group_emplace_back_valid:
  "list_all (\<lambda>(k, v). list_all P v) gs \<Longrightarrow> P ptr \<Longrightarrow>
   list_all (\<lambda>(k, v). list_all P v) (group_emplace_back key ptr gs)"
  by (induction gs) auto

lemma ptrs_mono:
  "list_all P ps \<Longrightarrow> (\<And>ptr. P ptr \<Longrightarrow> Q ptr) \<Longrightarrow> list_all Q ps"
  by (simp add: list_all_iff)

lemma groups_mono:
  "list_all (\<lambda>(k, v). list_all P v) gs \<Longrightarrow> (\<And>ptr. P ptr \<Longrightarrow> Q ptr) \<Longrightarrow>
   list_all (\<lambda>(k, v). list_all Q v) gs"
  by (induction gs) (auto simp: list_all_iff)

lemma Manager_valid_create:
  assumes "Manager_valid m"
  shows "Manager_valid (snd (Manager_create obj m))"
proof -
  have mono: "deref (heap m) ptr \<noteq> None \<Longrightarrow> deref (heap m @ [Some obj]) ptr \<noteq> None" for ptr
    by (simp add: deref_append)
  have new: "deref (heap m @ [Some obj]) (length (heap m)) \<noteq> None"
    by (simp add: deref_append)
  from assms have "list_all (\<lambda>ptr. deref (heap m) ptr \<noteq> None) (entities m)"
    by (simp add: Manager_valid_def)
  then have e: "list_all (\<lambda>ptr. deref (heap m @ [Some obj]) ptr \<noteq> None) (entities m)"
    by (rule ptrs_mono) (rule mono)
  from assms have "list_all (\<lambda>(k, v). list_all (\<lambda>ptr. deref (heap m) ptr \<noteq> None) v)
      (groupedEntities m)"
    by (simp add: Manager_valid_def)
  then have "list_all (\<lambda>(k, v). list_all (\<lambda>ptr. deref (heap m @ [Some obj]) ptr \<noteq> None) v)
      (groupedEntities m)"
    by (rule groups_mono) (rule mono)
  then have "list_all (\<lambda>(k, v). list_all (\<lambda>ptr. deref (heap m @ [Some obj]) ptr \<noteq> None) v)
      (group_emplace_back (typeid obj) (length (heap m)) (groupedEntities m))"
    using new by (rule group_emplace_back_valid)
  with e new show ?thesis
    by (simp add: Manager_valid_def Manager_create_def Let_def)
qed

lemma alive_valid: "alive hp ptr \<Longrightarrow> deref hp ptr \<noteq> None"
  by (auto simp: alive_def split: option.splits)

lemma Manager_valid_refresh:
  assumes "Manager_valid m" and "Manager_refresh m = Some m'"
  shows "Manager_valid m'"
proof -
  from assms have m': "m' = m\<lparr>groupedEntities := map (\<lambda>(k, v). (k, filter (alive (heap m)) v)) (groupedEntities m),
            entities := filter (alive (heap m)) (entities m),
            heap := delete_destroyed (entities m) (heap m)\<rparr>"
    by (simp add: Manager_refresh_valid)
  have "list_all (alive (heap m')) (entities m')"
    by (simp add: m' filter_alive_after)
  then have e: "list_all (\<lambda>ptr. deref (heap m') ptr \<noteq> None) (entities m')"
    by (rule ptrs_mono) (rule alive_valid)
  have "list_all (\<lambda>(k, v). list_all (alive (heap m')) v) (groupedEntities m')"
    by (simp add: m' groups_alive_after)
  then have "list_all (\<lambda>(k, v). list_all (\<lambda>ptr. deref (heap m') ptr \<noteq> None) v) (groupedEntities m')"
    by (rule groups_mono) (rule alive_valid)
  with e show ?thesis
    by (simp add: Manager_valid_def)
qed

subsection \<open>Manager: refresh\<close>

text \<open>
  C6. For every manager whose pointers are valid, \<^verbatim>\<open>refresh\<close> returns, and in the manager it
  returns no entity with \<open>destroyed == true\<close> remains: every pointer of the master list,
  of every group of \<^verbatim>\<open>groupedEntities\<close> and of every view \<^verbatim>\<open>getAll<T>()\<close> points to a live
  object whose flag is not set.
\<close>

theorem refresh_removes_destroyed:
  "Manager_valid m \<Longrightarrow>
   \<exists>m'. Manager_refresh m = Some m' \<and>
     none_destroyed (heap m') (entities m') \<and>
     list_all (\<lambda>(k, v). none_destroyed (heap m') v) (groupedEntities m') \<and>
     (\<forall>key. none_destroyed (heap m') (fst (Manager_getAll key m')))"
proof -
  assume v: "Manager_valid m"
  define m' where "m' =
    m\<lparr>groupedEntities := map (\<lambda>(k, v). (k, filter (alive (heap m)) v)) (groupedEntities m),
      entities := filter (alive (heap m)) (entities m),
      heap := delete_destroyed (entities m) (heap m)\<rparr>"
  have r: "Manager_refresh m = Some m'"
    unfolding m'_def using v by (rule Manager_refresh_valid)
  have e: "list_all (alive (heap m')) (entities m')"
    by (simp add: m'_def filter_alive_after)
  have g: "list_all (\<lambda>(k, v). list_all (alive (heap m')) v) (groupedEntities m')"
    by (simp add: m'_def groups_alive_after)
  have "list_all (alive (heap m')) (fst (Manager_getAll key m'))" for key
    using g by (rule getAll_alive)
  with r e g show ?thesis
    by (simp add: none_destroyed_alive)
qed

theorem refresh_removes_destroyed_witness:
  "Manager_valid
     \<lparr>heap = [Some (BrickObj ((Brick_new 85 46)\<lparr>destroyed := True\<rparr>)),
              Some (BallObj (Ball_new 400 300))],
      entities = [0, 1], groupedEntities = [(BrickT, [0]), (BallT, [1])]\<rparr> \<and>
   \<not> none_destroyed
     [Some (BrickObj ((Brick_new 85 46)\<lparr>destroyed := True\<rparr>)), Some (BallObj (Ball_new 400 300))]
     [0, 1] \<and>
   (\<exists>m'. Manager_refresh
       \<lparr>heap = [Some (BrickObj ((Brick_new 85 46)\<lparr>destroyed := True\<rparr>)),
                Some (BallObj (Ball_new 400 300))],
        entities = [0, 1], groupedEntities = [(BrickT, [0]), (BallT, [1])]\<rparr> = Some m' \<and>
      none_destroyed (heap m') (entities m') \<and>
      list_all (\<lambda>(k, v). none_destroyed (heap m') v) (groupedEntities m') \<and>
      (\<forall>key. none_destroyed (heap m') (fst (Manager_getAll key m'))))"
proof -
  have v: "Manager_valid
     \<lparr>heap = [Some (BrickObj ((Brick_new 85 46)\<lparr>destroyed := True\<rparr>)),
              Some (BallObj (Ball_new 400 300))],
      entities = [0, 1], groupedEntities = [(BrickT, [0]), (BallT, [1])]\<rparr>"
    by (simp add: Manager_valid_def deref_def)
  have n: "\<not> none_destroyed
     [Some (BrickObj ((Brick_new 85 46)\<lparr>destroyed := True\<rparr>)), Some (BallObj (Ball_new 400 300))]
     [0, 1]"
    by (simp add: none_destroyed_def alive_def deref_def)
  from v n refresh_removes_destroyed [OF v] show ?thesis
    by (intro conjI)
qed

text \<open>
  C8. For every manager whose pointers are valid, \<^verbatim>\<open>refresh\<close> returns a manager on which a
  second \<^verbatim>\<open>refresh\<close>, with nothing changed in between, returns the same manager: the
  master list, every group and the store are unchanged, no entity is removed.
\<close>

theorem refresh_twice:
  "Manager_valid m \<Longrightarrow>
   \<exists>m'. Manager_refresh m = Some m' \<and> Manager_refresh m' = Some m'"
proof -
  assume v: "Manager_valid m"
  define m' where "m' =
    m\<lparr>groupedEntities := map (\<lambda>(k, v). (k, filter (alive (heap m)) v)) (groupedEntities m),
      entities := filter (alive (heap m)) (entities m),
      heap := delete_destroyed (entities m) (heap m)\<rparr>"
  have r: "Manager_refresh m = Some m'"
    unfolding m'_def using v by (rule Manager_refresh_valid)
  have e: "list_all (alive (heap m')) (entities m')"
    by (simp add: m'_def filter_alive_after)
  have g: "list_all (\<lambda>(k, v). list_all (alive (heap m')) v) (groupedEntities m')"
    by (simp add: m'_def groups_alive_after)
  have "Manager_refresh m' = Some m'"
    using e g
    by (simp add: Manager_refresh_def refresh_groups_none erase_destroyed_none
          delete_destroyed_none)
  with r show ?thesis by simp
qed

theorem refresh_twice_witness:
  "Manager_valid
     \<lparr>heap = [Some (BrickObj ((Brick_new 85 46)\<lparr>destroyed := True\<rparr>)),
              Some (BallObj (Ball_new 400 300))],
      entities = [0, 1], groupedEntities = [(BrickT, [0]), (BallT, [1])]\<rparr> \<and>
   (\<exists>m'. Manager_refresh
       \<lparr>heap = [Some (BrickObj ((Brick_new 85 46)\<lparr>destroyed := True\<rparr>)),
                Some (BallObj (Ball_new 400 300))],
        entities = [0, 1], groupedEntities = [(BrickT, [0]), (BallT, [1])]\<rparr> = Some m' \<and>
      Manager_refresh m' = Some m')"
proof -
  have v: "Manager_valid
     \<lparr>heap = [Some (BrickObj ((Brick_new 85 46)\<lparr>destroyed := True\<rparr>)),
              Some (BallObj (Ball_new 400 300))],
      entities = [0, 1], groupedEntities = [(BrickT, [0]), (BallT, [1])]\<rparr>"
    by (simp add: Manager_valid_def deref_def)
  from v refresh_twice [OF v] show ?thesis
    by (intro conjI)
qed

subsection \<open>Game: restart\<close>

lemma Manager_create_brick_store:
  "Manager_create (BrickObj k) (brick_store ks) = (length ks, brick_store (ks @ [k]))"
  by (simp add: Manager_create_def brick_store_def Let_def)

lemma assign_requiredHits_brick_store:
  "assign_requiredHits (length ks) v (brick_store (ks @ [k])) =
   brick_store (ks @ [k\<lparr>requiredHits := v\<rparr>])"
  by (simp add: assign_requiredHits_def brick_store_def deref_def nth_append list_update_append)

lemma restart_loopY_step:
  "restart_loopY iX iY (brick_store ks) =
     (if iY < brkCountY then restart_loopY iX (iY + 1) (brick_store (ks @ [grid_brick iX iY]))
      else brick_store ks)"
  by (subst restart_loopY.simps)
    (simp only: Let_def Manager_create_brick_store prod.case assign_requiredHits_brick_store
       grid_brick_def)

lemma restart_loopY_brick_store:
  "restart_loopY iX iY (brick_store ks) =
     brick_store (ks @ map (grid_brick iX) [iY..brkCountY - 1])"
proof (induction "nat (brkCountY - iY)" arbitrary: iY ks)
  case 0
  then have "\<not> iY < brkCountY" by simp
  then show ?case
    by (subst restart_loopY_step) simp
next
  case (Suc n)
  then have lt: "iY < brkCountY" and n: "n = nat (brkCountY - (iY + 1))"
    by simp_all
  have "restart_loopY iX iY (brick_store ks) =
      restart_loopY iX (iY + 1) (brick_store (ks @ [grid_brick iX iY]))"
    using lt by (subst restart_loopY_step) simp
  also have "\<dots> = brick_store ((ks @ [grid_brick iX iY]) @
      map (grid_brick iX) [iY + 1..brkCountY - 1])"
    using n by (rule Suc.hyps(1))
  also have "(ks @ [grid_brick iX iY]) @ map (grid_brick iX) [iY + 1..brkCountY - 1] =
      ks @ map (grid_brick iX) [iY..brkCountY - 1]"
    using lt by (simp add: upto_rec1 [of iY])
  finally show ?case .
qed

lemma restart_loopX_brick_store:
  "restart_loopX iX (brick_store ks) =
     brick_store (ks @ concat (map (\<lambda>i. map (grid_brick i) [0..brkCountY - 1])
                                   [iX..brkCountX - 1]))"
proof (induction "nat (brkCountX - iX)" arbitrary: iX ks)
  case 0
  then have "\<not> iX < brkCountX" by simp
  then show ?case
    by (subst restart_loopX.simps) simp
next
  case (Suc n)
  then have lt: "iX < brkCountX" and n: "n = nat (brkCountX - (iX + 1))"
    by simp_all
  have "restart_loopX iX (brick_store ks) =
      restart_loopX (iX + 1) (brick_store (ks @ map (grid_brick iX) [0..brkCountY - 1]))"
    using lt by (subst restart_loopX.simps) (simp add: restart_loopY_brick_store)
  also have "\<dots> = brick_store ((ks @ map (grid_brick iX) [0..brkCountY - 1]) @
      concat (map (\<lambda>i. map (grid_brick i) [0..brkCountY - 1]) [iX + 1..brkCountX - 1]))"
    using n by (rule Suc.hyps(1))
  also have "(ks @ map (grid_brick iX) [0..brkCountY - 1]) @
      concat (map (\<lambda>i. map (grid_brick i) [0..brkCountY - 1]) [iX + 1..brkCountX - 1]) =
      ks @ concat (map (\<lambda>i. map (grid_brick i) [0..brkCountY - 1]) [iX..brkCountX - 1])"
    using lt by (simp add: upto_rec1 [of iX])
  finally show ?case .
qed

lemma nth_concat_uniform:
  "\<forall>xs\<in>set xss. length xs = c \<Longrightarrow> i < length xss \<Longrightarrow> j < c \<Longrightarrow>
   concat xss ! (i * c + j) = xss ! i ! j"
proof (induction xss arbitrary: i)
  case Nil
  then show ?case by simp
next
  case (Cons xs xss)
  show ?case
  proof (cases i)
    case 0
    with Cons.prems show ?thesis by (simp add: nth_append)
  next
    case (Suc i')
    with Cons.prems have "concat xss ! (i' * c + j) = xss ! i' ! j"
      by (intro Cons.IH) simp_all
    with Suc Cons.prems show ?thesis
      by (simp add: nth_append add.assoc)
  qed
qed

lemma length_restart_bricks: "length restart_bricks = 44"
  by (simp add: restart_bricks_def length_concat comp_def length_upto brkCountX_def brkCountY_def
        sum_list_triv)

lemma restart_bricks_nth:
  assumes "0 \<le> iX" "iX < brkCountX" "0 \<le> iY" "iY < brkCountY"
  shows "restart_bricks ! nat (iX * brkCountY + iY) = grid_brick iX iY"
proof -
  let ?xss = "map (\<lambda>i. map (grid_brick i) [0..brkCountY - 1]) [0..brkCountX - 1]"
  have "concat ?xss ! (nat iX * nat brkCountY + nat iY) = ?xss ! nat iX ! nat iY"
    using assms by (intro nth_concat_uniform) (auto simp: length_upto)
  moreover have "?xss ! nat iX ! nat iY = grid_brick iX iY"
    using assms by (simp add: length_upto)
  moreover have "nat (iX * brkCountY + iY) = nat iX * nat brkCountY + nat iY"
    using assms by (simp add: nat_add_distrib nat_mult_distrib)
  ultimately show ?thesis
    by (simp add: restart_bricks_def)
qed

lemma Manager_clear_brick_store: "Manager_clear m = brick_store []"
  by (simp add: Manager_clear_def brick_store_def)

lemma restart_loopX_all: "restart_loopX 0 (brick_store []) = brick_store restart_bricks"
  by (simp add: restart_loopX_brick_store restart_bricks_def)

lemma manager_restart:
  "manager (Game_restart g) =
     \<lparr>heap = map (\<lambda>k. Some (BrickObj k)) restart_bricks @
         [Some (BallObj (Ball_new (fdiv (float_of_int (rect_w gScreenRect)) 2)
                                  (fdiv (float_of_int (rect_h gScreenRect)) 2))),
          Some (PaddleObj (Paddle_new (fdiv (float_of_int (rect_w gScreenRect)) 2)
                                      (fsub (float_of_int (rect_h gScreenRect)) 50)))],
      entities = [0..<44] @ [44, 45],
      groupedEntities = [(BrickT, [0..<44]), (BallT, [44]), (PaddleT, [45])]\<rparr>"
proof -
  have ne: "restart_bricks \<noteq> []"
    using length_restart_bricks by auto
  have "brick_store restart_bricks =
     \<lparr>heap = map (\<lambda>k. Some (BrickObj k)) restart_bricks, entities = [0..<44],
      groupedEntities = [(BrickT, [0..<44])]\<rparr>"
    by (simp add: brick_store_def ne length_restart_bricks)
  then show ?thesis
    by (simp add: Game_restart_def Let_def Manager_clear_brick_store restart_loopX_all
          Manager_create_def length_restart_bricks)
qed

lemma state_restart: "state (Game_restart g) = Paused"
  by (simp add: Game_restart_def Let_def)

lemma remainingLives_restart: "remainingLives (Game_restart g) = 3"
  by (simp add: Game_restart_def Let_def)

lemma smod_nonneg:
  fixes p :: int
  assumes "0 \<le> p"
  shows "p smod 3 = p mod 3"
proof (cases "p = 0")
  case True
  then show ?thesis by (simp add: signed_modulo_int_def)
next
  case False
  with assms have "0 < p" by simp
  then show ?thesis by (simp add: signed_modulo_int_def)
qed

lemma sint_hits:
  fixes r :: int
  assumes "r = 0 \<or> r = 1 \<or> r = 2"
  shows "sint (word_of_int (1 + r) :: int32) \<in> {1, 2, 3}"
  using assms by auto

lemma requiredHits_grid_brick:
  assumes "0 \<le> iX" "0 \<le> iY"
  shows "requiredHits (grid_brick iX iY) = word_of_int (1 + (iX * iY) mod 3)"
    and "sint (requiredHits (grid_brick iX iY)) \<in> {1, 2, 3}"
    and "\<not> destroyed (grid_brick iX iY)"
proof -
  from assms have "0 \<le> iX * iY" by simp
  then have s: "(iX * iY) smod 3 = (iX * iY) mod 3"
    by (rule smod_nonneg)
  have h: "requiredHits (grid_brick iX iY) = word_of_int (1 + (iX * iY) mod 3)"
    by (simp only: grid_brick_def s) simp
  then show "requiredHits (grid_brick iX iY) = word_of_int (1 + (iX * iY) mod 3)" .
  have "(iX * iY) mod 3 = 0 \<or> (iX * iY) mod 3 = 1 \<or> (iX * iY) mod 3 = 2"
    by presburger
  then show "sint (requiredHits (grid_brick iX iY)) \<in> {1, 2, 3}"
    unfolding h by (rule sint_hits)
  show "\<not> destroyed (grid_brick iX iY)"
    by (simp add: grid_brick_def Brick_new_def)
qed

text \<open>
  C7. After \<^verbatim>\<open>restart\<close>, from any game: the remaining lives are 3 and the state is
  \<open>Paused\<close>; the view of the bricks holds \<open>brkCountX * brkCountY = 44\<close> pointers, and the
  one at position \<open>iX * brkCountY + iY\<close> points to a brick that is not destroyed and whose
  \<open>requiredHits\<close> is \<open>1 + ((iX * iY) % 3)\<close>, a value among 1, 2 and 3; the view of the
  balls holds one pointer, to a ball at the centre of the world; the view of the paddles
  holds one pointer, to a paddle; and the master list is these pointers and no other.
\<close>

theorem restart_populates:
  "remainingLives (Game_restart g) = 3 \<and>
   state (Game_restart g) = Paused \<and>
   length (fst (Manager_getAll BrickT (manager (Game_restart g)))) = nat (brkCountX * brkCountY) \<and>
   nat (brkCountX * brkCountY) = 44 \<and>
   (\<forall>iX\<in>{0..<brkCountX}. \<forall>iY\<in>{0..<brkCountY}.
      \<exists>k. deref (heap (manager (Game_restart g)))
             (fst (Manager_getAll BrickT (manager (Game_restart g))) ! nat (iX * brkCountY + iY))
           = Some (BrickObj k) \<and>
         requiredHits k = word_of_int (1 + (iX * iY) mod 3) \<and>
         sint (requiredHits k) \<in> {1, 2, 3} \<and> \<not> destroyed k) \<and>
   (\<exists>ptr b. fst (Manager_getAll BallT (manager (Game_restart g))) = [ptr] \<and>
      deref (heap (manager (Game_restart g))) ptr = Some (BallObj b) \<and>
      xpos b = of_int (rect_w gScreenRect) / 2 \<and> ypos b = of_int (rect_h gScreenRect) / 2 \<and>
      \<not> destroyed b) \<and>
   (\<exists>ptr p. fst (Manager_getAll PaddleT (manager (Game_restart g))) = [ptr] \<and>
      deref (heap (manager (Game_restart g))) ptr = Some (PaddleObj p) \<and> \<not> destroyed p) \<and>
   entities (manager (Game_restart g)) =
     fst (Manager_getAll BrickT (manager (Game_restart g))) @
     fst (Manager_getAll BallT (manager (Game_restart g))) @
     fst (Manager_getAll PaddleT (manager (Game_restart g)))"
proof -
  define M where "M = manager (Game_restart g)"
  have M: "heap M = map (\<lambda>k. Some (BrickObj k)) restart_bricks @
         [Some (BallObj (Ball_new (fdiv (float_of_int (rect_w gScreenRect)) 2)
                                  (fdiv (float_of_int (rect_h gScreenRect)) 2))),
          Some (PaddleObj (Paddle_new (fdiv (float_of_int (rect_w gScreenRect)) 2)
                                      (fsub (float_of_int (rect_h gScreenRect)) 50)))]"
    "entities M = [0..<44] @ [44, 45]"
    "groupedEntities M = [(BrickT, [0..<44]), (BallT, [44]), (PaddleT, [45])]"
    by (simp_all add: M_def manager_restart)
  have views: "fst (Manager_getAll BrickT M) = [0..<44]"
    "fst (Manager_getAll BallT M) = [44]" "fst (Manager_getAll PaddleT M) = [45]"
    by (simp_all add: Manager_getAll_def M)
  have count: "nat (brkCountX * brkCountY) = 44"
    by (simp add: brkCountX_def brkCountY_def)
  have bricks: "\<exists>k. deref (heap M) ([0..<44] ! nat (iX * brkCountY + iY)) = Some (BrickObj k) \<and>
         requiredHits k = word_of_int (1 + (iX * iY) mod 3) \<and>
         sint (requiredHits k) \<in> {1, 2, 3} \<and> \<not> destroyed k"
    if "iX \<in> {0..<brkCountX}" "iY \<in> {0..<brkCountY}" for iX iY
  proof -
    from that have r: "0 \<le> iX" "iX < brkCountX" "0 \<le> iY" "iY < brkCountY"
      by simp_all
    then have "iX * brkCountY + iY < 44"
      by (simp add: brkCountX_def brkCountY_def)
    moreover from r have "0 \<le> iX * brkCountY + iY"
      by (simp add: brkCountY_def)
    ultimately have n: "nat (iX * brkCountY + iY) < 44"
      by simp
    then have "deref (heap M) ([0..<44] ! nat (iX * brkCountY + iY)) =
        Some (BrickObj (restart_bricks ! nat (iX * brkCountY + iY)))"
      by (simp add: deref_def M length_restart_bricks nth_append)
    with r have "deref (heap M) ([0..<44] ! nat (iX * brkCountY + iY)) =
        Some (BrickObj (grid_brick iX iY))"
      by (simp add: restart_bricks_nth)
    with requiredHits_grid_brick [OF r(1) r(3)] show ?thesis
      by blast
  qed
  have ball: "deref (heap M) 44 = Some (BallObj (Ball_new (fdiv (float_of_int (rect_w gScreenRect)) 2)
                                  (fdiv (float_of_int (rect_h gScreenRect)) 2)))"
    and paddle: "deref (heap M) 45 = Some (PaddleObj (Paddle_new (fdiv (float_of_int (rect_w gScreenRect)) 2)
                                      (fsub (float_of_int (rect_h gScreenRect)) 50)))"
    by (simp_all add: deref_def M length_restart_bricks nth_append)
  have bp: "xpos (Ball_new mX mY) = mX" "ypos (Ball_new mX mY) = mY"
    "\<not> destroyed (Ball_new mX mY)" "\<not> destroyed (Paddle_new mX mY)" for mX mY
    by (simp_all add: Ball_new_def Paddle_new_def)
  have c3: "length (fst (Manager_getAll BrickT M)) = nat (brkCountX * brkCountY)"
    by (simp add: views count)
  have c5: "\<forall>iX\<in>{0..<brkCountX}. \<forall>iY\<in>{0..<brkCountY}.
      \<exists>k. deref (heap M) (fst (Manager_getAll BrickT M) ! nat (iX * brkCountY + iY))
           = Some (BrickObj k) \<and>
         requiredHits k = word_of_int (1 + (iX * iY) mod 3) \<and>
         sint (requiredHits k) \<in> {1, 2, 3} \<and> \<not> destroyed k"
    unfolding views using bricks by blast
  have c6: "\<exists>ptr b. fst (Manager_getAll BallT M) = [ptr] \<and>
      deref (heap M) ptr = Some (BallObj b) \<and>
      xpos b = of_int (rect_w gScreenRect) / 2 \<and> ypos b = of_int (rect_h gScreenRect) / 2 \<and>
      \<not> destroyed b"
    by (simp add: views ball bp screen_centre)
  have c7: "\<exists>ptr p. fst (Manager_getAll PaddleT M) = [ptr] \<and>
      deref (heap M) ptr = Some (PaddleObj p) \<and> \<not> destroyed p"
    by (simp add: views paddle bp)
  have c8: "entities M = fst (Manager_getAll BrickT M) @ fst (Manager_getAll BallT M) @
      fst (Manager_getAll PaddleT M)"
    by (simp add: views M(2))
  from remainingLives_restart [of g] state_restart [of g] c3 count c5 c6 c7 c8
  show ?thesis
    unfolding M_def [symmetric] by (intro conjI)
qed

theorem restart_populates_witness:
  "remainingLives (Game_restart Game_new) = 3 \<and>
   state (Game_restart Game_new) = Paused \<and>
   length (fst (Manager_getAll BrickT (manager (Game_restart Game_new)))) = 44 \<and>
   (2 :: int) \<in> {0..<brkCountX} \<and> (2 :: int) \<in> {0..<brkCountY} \<and>
   (\<exists>k. deref (heap (manager (Game_restart Game_new)))
          (fst (Manager_getAll BrickT (manager (Game_restart Game_new))) ! 10)
        = Some (BrickObj k) \<and> requiredHits k = 2)"
proof -
  note th = restart_populates [of Game_new]
  have r: "(2 :: int) \<in> {0..<brkCountX}" "(2 :: int) \<in> {0..<brkCountY}"
    by (simp_all add: brkCountX_def brkCountY_def)
  have n: "nat (2 * brkCountY + 2) = 10" "word_of_int (1 + (2 * 2) mod 3) = (2 :: int32)"
    by (simp_all add: brkCountY_def)
  from th have "\<forall>iX\<in>{0..<brkCountX}. \<forall>iY\<in>{0..<brkCountY}.
      \<exists>k. deref (heap (manager (Game_restart Game_new)))
             (fst (Manager_getAll BrickT (manager (Game_restart Game_new)))
                ! nat (iX * brkCountY + iY))
           = Some (BrickObj k) \<and>
         requiredHits k = word_of_int (1 + (iX * iY) mod 3) \<and>
         sint (requiredHits k) \<in> {1, 2, 3} \<and> \<not> destroyed k"
    by (elim conjE)
  with r have "\<exists>k. deref (heap (manager (Game_restart Game_new)))
             (fst (Manager_getAll BrickT (manager (Game_restart Game_new)))
                ! nat (2 * brkCountY + 2))
           = Some (BrickObj k) \<and>
         requiredHits k = word_of_int (1 + (2 * 2) mod 3)"
    by blast
  then have k: "\<exists>k. deref (heap (manager (Game_restart Game_new)))
          (fst (Manager_getAll BrickT (manager (Game_restart Game_new))) ! 10)
        = Some (BrickObj k) \<and> requiredHits k = 2"
    by (simp only: n)
  from th have l: "remainingLives (Game_restart Game_new) = 3"
    and s: "state (Game_restart Game_new) = Paused"
    and c: "length (fst (Manager_getAll BrickT (manager (Game_restart Game_new)))) = 44"
    by simp_all
  from l s c r k show ?thesis
    by (intro conjI)
qed

end
